theory Spec2Isabelle
  imports Main
begin

section \<open>Data model\<close>

text \<open>
  The repository holds two clients of the same remote service: an index-based one (a
  module-level \<open>state\<close> object, direct calls into the user interface) and a store-based
  one (a \<open>Store\<close> with subscribers). Both are embedded here; the definitions of the
  index-based client carry the prefix \<open>legacy_\<close> where the two use the same name.

  JavaScript values are typed as the service delivers them: a field that is \<open>null\<close> or a
  string is a \<open>string option\<close>, counts are integers, and a rejected request is the left
  injection of a sum carrying the message of the thrown error. Fields keep the names of the
  source; where two objects have a field of the same name, the field of one of them
  carries a prefix (\<open>cnt_\<close>, \<open>info_\<close>, \<open>progress_\<close>, \<open>nav_\<close>, \<open>legacy_\<close>).
\<close>

record counts =
  cnt_watermarked :: "int option"
  cnt_non_watermarked :: "int option"

record dataset =
  name :: string
  target_count :: "counts option"
  current_count :: "counts option"
  priority :: int
  annotated_count :: int
  total_images :: int

record image =
  data :: "string option"
  path :: "string option"
  index :: int
  total :: int
  status :: string

record stats =
  watermarked :: int
  noWatermarked :: int
  targetWatermarked :: int
  targetNoWatermarked :: int

record app_state =
  currentDataset :: "string option"
  datasets :: "dataset list"
  image :: image
  stats :: stats
  isLoading :: bool

text \<open>
  An object literal handed to \<open>setState\<close>, \<open>updateImage\<close> or \<open>updateStats\<close> names some
  of the fields only. A field that is absent is \<open>None\<close>; a field that is present with
  value \<open>v\<close> is \<open>Some v\<close> (so a present \<open>null\<close> is \<open>Some None\<close>).
\<close>

record image_patch =
  new_data :: "string option option"
  new_path :: "string option option"
  new_index :: "int option"
  new_total :: "int option"
  new_status :: "string option"

record stats_patch =
  new_watermarked :: "int option"
  new_noWatermarked :: "int option"
  new_targetWatermarked :: "int option"
  new_targetNoWatermarked :: "int option"

record state_patch =
  new_currentDataset :: "string option option"
  new_datasets :: "dataset list option"
  new_image :: "image option"
  new_stats :: "stats option"
  new_isLoading :: "bool option"

definition no_image_fields :: image_patch where
  "no_image_fields = \<lparr>new_data = None, new_path = None, new_index = None,
     new_total = None, new_status = None\<rparr>"

definition no_stats_fields :: stats_patch where
  "no_stats_fields = \<lparr>new_watermarked = None, new_noWatermarked = None,
     new_targetWatermarked = None, new_targetNoWatermarked = None\<rparr>"

definition no_fields :: state_patch where
  "no_fields = \<lparr>new_currentDataset = None, new_datasets = None, new_image = None,
     new_stats = None, new_isLoading = None\<rparr>"

text \<open>The spread \<open>{ ...a, ...b }\<close>: every field present in \<open>b\<close> wins, the others are \<open>a\<close>'s.\<close>

definition spread :: "'a \<Rightarrow> 'a option \<Rightarrow> 'a" where
  "spread old new = (case new of None \<Rightarrow> old | Some v \<Rightarrow> v)"

definition spread_image :: "image \<Rightarrow> image_patch \<Rightarrow> image" where
  "spread_image i p =
     \<lparr>data = spread (data i) (new_data p),
      path = spread (path i) (new_path p),
      index = spread (index i) (new_index p),
      total = spread (total i) (new_total p),
      status = spread (status i) (new_status p)\<rparr>"

definition spread_stats :: "stats \<Rightarrow> stats_patch \<Rightarrow> stats" where
  "spread_stats s p =
     \<lparr>watermarked = spread (watermarked s) (new_watermarked p),
      noWatermarked = spread (noWatermarked s) (new_noWatermarked p),
      targetWatermarked = spread (targetWatermarked s) (new_targetWatermarked p),
      targetNoWatermarked = spread (targetNoWatermarked s) (new_targetNoWatermarked p)\<rparr>"

definition spread_state :: "app_state \<Rightarrow> state_patch \<Rightarrow> app_state" where
  "spread_state s p =
     \<lparr>currentDataset = spread (currentDataset s) (new_currentDataset p),
      datasets = spread (datasets s) (new_datasets p),
      image = spread (image s) (new_image p),
      stats = spread (stats s) (new_stats p),
      isLoading = spread (isLoading s) (new_isLoading p)\<rparr>"

section \<open>The Store\<close>

text \<open>
  \<open>this.state\<close> is a reference to an object. The objects created so far are kept in
  \<open>objs\<close>, in the order of their creation, and a reference is a position in that list;
  \<open>state\<close> is the reference the Store holds. \<open>listeners\<close> is the \<open>Set\<close> of subscribers in
  insertion order, a subscriber being named by a number. A subscriber is an observer:
  what it is handed is recorded, what it draws is not modelled. (The one subscriber of the
  application renders the state; while doing so it orders the array \<open>datasets\<close> by
  priority in place, which changes no field the operations below read other than the
  order in which \<open>find\<close> meets two datasets of the same name.)
\<close>

record Store =
  objs :: "app_state list"
  state :: nat
  listeners :: "nat list"

definition initial_state :: app_state where
  "initial_state =
     \<lparr>currentDataset = None, datasets = [],
      image = \<lparr>data = None, path = None, index = 0, total = 0, status = ''pending''\<rparr>,
      stats = \<lparr>watermarked = 0, noWatermarked = 0, targetWatermarked = 0,
        targetNoWatermarked = 0\<rparr>,
      isLoading = False\<rparr>"

definition new_Store :: Store where
  "new_Store = \<lparr>objs = [initial_state], state = 0, listeners = []\<rparr>"

definition getState :: "Store \<Rightarrow> app_state" where
  "getState st = objs st ! state st"

text \<open>\<open>notify\<close>: every subscriber, in insertion order, is handed the current state.\<close>

definition notify :: "Store \<Rightarrow> (nat \<times> app_state) list" where
  "notify st = map (\<lambda>l. (l, getState st)) (listeners st)"

text \<open>
  \<open>setState\<close> builds a new object from the spread of the current one and the argument,
  makes \<open>this.state\<close> refer to it, and notifies. The result is the Store and the
  deliveries made.
\<close>

definition setState :: "Store \<Rightarrow> state_patch \<Rightarrow> Store \<times> (nat \<times> app_state) list" where
  "setState st newState =
     (let st' = st\<lparr>objs := objs st @ [spread_state (getState st) newState],
                    state := length (objs st)\<rparr>
      in (st', notify st'))"

definition updateDataset :: "Store \<Rightarrow> string \<Rightarrow> Store \<times> (nat \<times> app_state) list" where
  "updateDataset st datasetName =
     setState st (no_fields\<lparr>new_currentDataset := Some (Some datasetName)\<rparr>)"

definition updateImage :: "Store \<Rightarrow> image_patch \<Rightarrow> Store \<times> (nat \<times> app_state) list" where
  "updateImage st imageInfo =
     setState st (no_fields\<lparr>new_image := Some (spread_image (image (getState st)) imageInfo)\<rparr>)"

definition updateStats :: "Store \<Rightarrow> stats_patch \<Rightarrow> Store \<times> (nat \<times> app_state) list" where
  "updateStats st ss =
     setState st (no_fields\<lparr>new_stats := Some (spread_stats (stats (getState st)) ss)\<rparr>)"

definition setLoading :: "Store \<Rightarrow> bool \<Rightarrow> Store \<times> (nat \<times> app_state) list" where
  "setLoading st loading = setState st (no_fields\<lparr>new_isLoading := Some loading\<rparr>)"

definition subscribe :: "Store \<Rightarrow> nat \<Rightarrow> Store" where
  "subscribe st listener =
     (if listener \<in> set (listeners st) then st
      else st\<lparr>listeners := listeners st @ [listener]\<rparr>)"

section \<open>The remote service and the trace of effects\<close>

record image_info =
  info_path :: string
  info_index :: int
  info_status :: string

record progress =
  progress_total_images :: int
  progress_annotated_count :: int
  watermarked_count :: int
  non_watermarked_count :: int

record nav_result =
  nav_success :: bool
  nav_index :: int

record action_result =
  success :: bool
  message :: string

text \<open>
  The service is a state of type \<open>'w\<close> and one function for each endpoint of the client
  \<open>api\<close>. A call answers with the decoded body, or rejects with a message (the
  \<open>detail\<close> of a response that is not \<open>ok\<close>, or a transport failure), and moves the
  service to its next state.
\<close>

record 'w server =
  srv_getTypes :: "'w \<Rightarrow> bool \<Rightarrow> (string + dataset list) \<times> 'w"
  srv_getCurrentImage :: "'w \<Rightarrow> string \<Rightarrow> (string + image_info) \<times> 'w"
  srv_getImageByIndex :: "'w \<Rightarrow> string \<Rightarrow> int \<Rightarrow> (string + image_info) \<times> 'w"
  srv_getImageBase64 :: "'w \<Rightarrow> string \<Rightarrow> int \<Rightarrow> (string + string) \<times> 'w"
  srv_deleteImage :: "'w \<Rightarrow> string \<Rightarrow> string \<Rightarrow> (string + unit) \<times> 'w"
  srv_createAnnotation :: "'w \<Rightarrow> string \<Rightarrow> int \<Rightarrow> string \<Rightarrow> (string + unit) \<times> 'w"
  srv_skipImage :: "'w \<Rightarrow> string \<Rightarrow> string \<Rightarrow> (string + unit) \<times> 'w"
  srv_undo :: "'w \<Rightarrow> (string + action_result) \<times> 'w"
  srv_getProgress :: "'w \<Rightarrow> string \<Rightarrow> (string + progress) \<times> 'w"
  srv_navigateNext :: "'w \<Rightarrow> string \<Rightarrow> (string + nav_result) \<times> 'w"
  srv_navigatePrev :: "'w \<Rightarrow> string \<Rightarrow> (string + nav_result) \<times> 'w"

datatype request =
    GetTypes bool
  | GetCurrentImage string
  | GetImageByIndex string int
  | GetImageBase64 string int
  | DeleteImage string string
  | CreateAnnotation string int string
  | SkipImage string string
  | Undo
  | GetProgress string
  | NavigateNext string
  | NavigatePrev string

datatype toast_kind = Info | Success | Warning | Error

text \<open>
  The texts of the toasts are Chinese literals in the source; each literal is one
  constructor here, named by its meaning. A text built from a literal and the message of
  a caught error carries that message; \<open>ServerMessage\<close> is a text taken from a response
  as it is.
\<close>

datatype toast_text =
    SelectDatasetFirst
  | Marked int
  | OperationFailed string
  | Skipped
  | SkipFailed string
  | ImageDeleted
  | DeleteFailed string
  | CannotNavigate
  | UndoDone
  | UndoFailed
  | ServerMessage string
  | LoadImageFailed string
  | LoadFailed string
  | SelectTypeAndImageFirst
  | MarkedWatermarked
  | MarkedNoWatermark
  | AnnotateFailed string
  | AlreadyLast
  | AlreadyFirst
  | NavigateFailed string
  | Undone
  | UndoFailedWith string
  | LoadTypesFailed string

record target_panel =
  wm_text :: string
  wm_className :: string
  nwm_text :: string
  nwm_className :: string

datatype ui_call =
    ShowToast toast_text toast_kind
  | SetHeader string
  | HighlightButton string
  | HideImage
  | ShowLoading
  | ShowImage string
  | UpdateStatusBadge string
  | UpdateFilePath string
  | UpdateProgress int int
  | SetTextContent string int
  | RenderTypeList "dataset list" "string option"
  | RenderTypeSelector "dataset list" "string option"
  | TargetStats "target_panel option"

record legacy_state =
  currentType :: "string option"
  currentIndex :: int
  currentImage :: "image_info option"
  types :: "dataset list"
  legacy_isLoading :: bool

text \<open>
  The trace lists what an operation did, in program order: the requests it sent, the
  state objects the Store was made to hold and the deliveries to its subscribers, the
  assignments to the index-based \<open>state\<close> (with the state they left), the calls into the
  user interface and the lines written to the console.
\<close>

datatype event =
    Request request
  | StateReplaced app_state
  | Notify nat app_state
  | LegacyAssigned legacy_state
  | Ui ui_call
  | ConsoleError string

record 'w world =
  store :: Store
  remote :: 'w
  trace :: "event list"

text \<open>
  \<open>!v\<close> for a value that is \<open>null\<close> or a string: true of \<open>null\<close> and of the empty string.
\<close>

definition falsy :: "string option \<Rightarrow> bool" where
  "falsy v = (case v of None \<Rightarrow> True | Some t \<Rightarrow> t = [])"

text \<open>\<open>x || 0\<close> for a count that may be missing.\<close>

definition or0 :: "int option \<Rightarrow> int" where
  "or0 v = (case v of None \<Rightarrow> 0 | Some n \<Rightarrow> n)"

definition emit :: "event \<Rightarrow> 'w world \<Rightarrow> 'w world" where
  "emit e w = w\<lparr>trace := trace w @ [e]\<rparr>"

definition showToast :: "toast_text \<Rightarrow> toast_kind \<Rightarrow> 'w world \<Rightarrow> 'w world" where
  "showToast t k w = emit (Ui (ShowToast t k)) w"

text \<open>
  \<open>api.request\<close> of the store-based client: the request goes out; a rejection is written
  to the console and thrown again.
\<close>

definition request :: "('w \<Rightarrow> (string + 'r) \<times> 'w) \<Rightarrow> request \<Rightarrow> 'w world \<Rightarrow>
    (string + 'r) \<times> 'w world" where
  "request endpoint r w =
     (case endpoint (remote w) of
        (Inl e, rs) \<Rightarrow> (Inl e, w\<lparr>remote := rs, trace := trace w @ [Request r, ConsoleError e]\<rparr>)
      | (Inr v, rs) \<Rightarrow> (Inr v, w\<lparr>remote := rs, trace := trace w @ [Request r]\<rparr>))"

text \<open>A call of a Store method from the application: the new object, then the deliveries.\<close>

definition on_store :: "(Store \<Rightarrow> Store \<times> (nat \<times> app_state) list) \<Rightarrow> 'w world \<Rightarrow> 'w world" where
  "on_store f w =
     (case f (store w) of
        (st, deliveries) \<Rightarrow>
          w\<lparr>store := st,
            trace := trace w @ StateReplaced (getState st) # map (\<lambda>(l, s). Notify l s) deliveries\<rparr>)"

section \<open>The store-based application\<close>

text \<open>
  An operation is a function from the world at its call to the world at its completion:
  each \<open>await\<close> is answered by the service at once, and what another handler does
  while an operation waits is not part of that operation. A handler that starts while a
  load is in flight starts from a world whose \<open>isLoading\<close> is true.
\<close>

definition loaded_image :: "string \<Rightarrow> image_info \<Rightarrow> image_patch" where
  "loaded_image base64 info =
     \<lparr>new_data = Some (Some base64), new_path = Some (Some (info_path info)),
      new_index = Some (info_index info), new_total = None,
      new_status = Some (info_status info)\<rparr>"

definition cleared_image :: image_patch where
  "cleared_image = no_image_fields\<lparr>new_data := Some None, new_path := Some None\<rparr>"

text \<open>
  The \<open>catch\<close> block and the \<open>try\<close> block of \<open>loadCurrentImage\<close>; the \<open>finally\<close> is
  the outer call of \<open>setLoading\<close> in \<open>loadCurrentImage\<close> itself.
\<close>

definition loadCurrentImage_catch :: "string \<Rightarrow> 'w world \<Rightarrow> 'w world" where
  "loadCurrentImage_catch err w =
     on_store (\<lambda>st. updateImage st cleared_image) (emit (ConsoleError err) w)"

definition loadCurrentImage_try :: "'w server \<Rightarrow> string \<Rightarrow> 'w world \<Rightarrow> 'w world" where
  "loadCurrentImage_try srv ds w =
     (case request (\<lambda>rs. srv_getCurrentImage srv rs ds) (GetCurrentImage ds) w of
        (Inl err, w1) \<Rightarrow> loadCurrentImage_catch err w1
      | (Inr info, w1) \<Rightarrow>
          (case request (\<lambda>rs. srv_getImageBase64 srv rs ds (info_index info))
                  (GetImageBase64 ds (info_index info)) w1 of
             (Inl err, w2) \<Rightarrow> loadCurrentImage_catch err w2
           | (Inr base64, w2) \<Rightarrow>
               on_store (\<lambda>st. updateImage st (loaded_image base64 info)) w2))"

definition loadCurrentImage :: "'w server \<Rightarrow> 'w world \<Rightarrow> 'w world" where
  "loadCurrentImage srv w =
     (let ds = currentDataset (getState (store w))
      in if falsy ds then w
         else on_store (\<lambda>st. setLoading st False)
                (loadCurrentImage_try srv (the ds)
                   (on_store (\<lambda>st. setLoading st True) w)))"

definition updateProgress :: "'w server \<Rightarrow> 'w world \<Rightarrow> 'w world" where
  "updateProgress srv w =
     (let ds = currentDataset (getState (store w))
      in if falsy ds then w
         else (case request (\<lambda>rs. srv_getProgress srv rs (the ds)) (GetProgress (the ds)) w of
                 (Inl err, w1) \<Rightarrow> w1
               | (Inr p, w1) \<Rightarrow>
                   on_store (\<lambda>st. updateImage st
                       (no_image_fields\<lparr>new_total := Some (progress_total_images p)\<rparr>))
                     (on_store (\<lambda>st. updateStats st
                         (no_stats_fields\<lparr>new_watermarked := Some (watermarked_count p),
                            new_noWatermarked := Some (non_watermarked_count p)\<rparr>)) w1)))"

definition target_stats :: "counts \<Rightarrow> stats_patch" where
  "target_stats tc =
     no_stats_fields\<lparr>new_targetWatermarked := Some (or0 (cnt_watermarked tc)),
        new_targetNoWatermarked := Some (or0 (cnt_non_watermarked tc))\<rparr>"

definition selectDataset :: "'w server \<Rightarrow> string \<Rightarrow> 'w world \<Rightarrow> 'w world" where
  "selectDataset srv nm w =
     (if currentDataset (getState (store w)) = Some nm then w
      else
        let w1 = on_store (\<lambda>st. updateDataset st nm) w;
            w2 = emit (Ui (SetHeader nm)) w1;
            w3 = (case find (\<lambda>d. name d = nm) (datasets (getState (store w2))) of
                    None \<Rightarrow> w2
                  | Some d \<Rightarrow>
                      (case target_count d of
                         None \<Rightarrow> w2
                       | Some tc \<Rightarrow> on_store (\<lambda>st. updateStats st (target_stats tc)) w2))
        in updateProgress srv (loadCurrentImage srv w3))"

definition handleAnnotation :: "'w server \<Rightarrow> int \<Rightarrow> 'w world \<Rightarrow> 'w world" where
  "handleAnnotation srv label w =
     (let w0 = emit (Ui (HighlightButton
                  (if label = 1 then ''btn-watermarked'' else ''btn-no-watermarked''))) w;
          s = getState (store w0)
      in if falsy (currentDataset s) \<or> falsy (path (image s))
         then showToast SelectDatasetFirst Warning w0
         else
           (case request (\<lambda>rs. srv_createAnnotation srv rs (the (path (image s))) label
                            (the (currentDataset s)))
                   (CreateAnnotation (the (path (image s))) label (the (currentDataset s))) w0 of
              (Inl err, w1) \<Rightarrow> showToast (OperationFailed err) Error w1
            | (Inr u, w1) \<Rightarrow>
                (let w2 = showToast (Marked label) (if label = 1 then Error else Success) w1
                 in case request (\<lambda>rs. srv_navigateNext srv rs (the (currentDataset s)))
                           (NavigateNext (the (currentDataset s))) w2 of
                      (Inl err, w3) \<Rightarrow> showToast (OperationFailed err) Error w3
                    | (Inr r, w3) \<Rightarrow> updateProgress srv (loadCurrentImage srv w3))))"

definition handleSkip :: "'w server \<Rightarrow> 'w world \<Rightarrow> 'w world" where
  "handleSkip srv w =
     (let w0 = emit (Ui (HighlightButton ''btn-skip'')) w;
          s = getState (store w0)
      in if falsy (currentDataset s) \<or> falsy (path (image s)) then w0
         else
           (case request (\<lambda>rs. srv_skipImage srv rs (the (path (image s)))
                            (the (currentDataset s)))
                   (SkipImage (the (path (image s))) (the (currentDataset s))) w0 of
              (Inl err, w1) \<Rightarrow> showToast (SkipFailed err) Error w1
            | (Inr u, w1) \<Rightarrow>
                (let w2 = showToast Skipped Info w1
                 in case request (\<lambda>rs. srv_navigateNext srv rs (the (currentDataset s)))
                           (NavigateNext (the (currentDataset s))) w2 of
                      (Inl err, w3) \<Rightarrow> showToast (SkipFailed err) Error w3
                    | (Inr r, w3) \<Rightarrow> loadCurrentImage srv w3)))"

text \<open>\<open>confirmed\<close> is the operator's answer to the \<open>confirm\<close> dialog, asked only past the guard.\<close>

definition handleDelete :: "'w server \<Rightarrow> bool \<Rightarrow> 'w world \<Rightarrow> 'w world" where
  "handleDelete srv confirmed w =
     (let s = getState (store w)
      in if falsy (currentDataset s) \<or> falsy (path (image s)) then w
         else if \<not> confirmed then w
         else
           (case request (\<lambda>rs. srv_deleteImage srv rs (the (currentDataset s))
                            (the (path (image s))))
                   (DeleteImage (the (currentDataset s)) (the (path (image s)))) w of
              (Inl err, w1) \<Rightarrow> showToast (DeleteFailed err) Error w1
            | (Inr u, w1) \<Rightarrow>
                updateProgress srv (loadCurrentImage srv (showToast ImageDeleted Success w1))))"

definition handleNavigate :: "'w server \<Rightarrow> string \<Rightarrow> 'w world \<Rightarrow> 'w world" where
  "handleNavigate srv direction w =
     (let ds = currentDataset (getState (store w))
      in if falsy ds then w
         else
           (case (if direction = ''next''
                  then request (\<lambda>rs. srv_navigateNext srv rs (the ds)) (NavigateNext (the ds)) w
                  else request (\<lambda>rs. srv_navigatePrev srv rs (the ds)) (NavigatePrev (the ds)) w) of
              (Inl err, w1) \<Rightarrow> showToast CannotNavigate Error w1
            | (Inr r, w1) \<Rightarrow> loadCurrentImage srv w1))"

definition handleUndo :: "'w server \<Rightarrow> 'w world \<Rightarrow> 'w world" where
  "handleUndo srv w =
     (case request (srv_undo srv) Undo w of
        (Inl err, w1) \<Rightarrow> showToast UndoFailed Error w1
      | (Inr res, w1) \<Rightarrow>
          if success res
          then updateProgress srv (loadCurrentImage srv (showToast UndoDone Info w1))
          else showToast (ServerMessage (message res)) Warning w1)"

section \<open>Rendering the progress counters\<close>

text \<open>
  A number inside a template literal: its decimal digits, after a minus sign if negative.
  That is what JavaScript prints for an integer below \<open>10\<^sup>2\<^sup>1\<close> in absolute value, as
  every count of images is; from there on JavaScript prints an exponent form, which
  \<open>show_int\<close> does not follow.
\<close>

definition digit :: "nat \<Rightarrow> char" where
  "digit d = ''0123456789'' ! d"

function show_nat :: "nat \<Rightarrow> string" where
  "show_nat n = (if n < 10 then [digit n] else show_nat (n div 10) @ [digit (n mod 10)])"
  by pat_completeness auto
termination
  by (relation "measure (\<lambda>n. n)") auto

declare show_nat.simps [simp del]

definition show_int :: "int \<Rightarrow> string" where
  "show_int i = (if i < 0 then CHR ''-'' # show_nat (nat (- i)) else show_nat (nat i))"

definition classList_add :: "string \<Rightarrow> string list \<Rightarrow> string list" where
  "classList_add c cs = (if c \<in> set cs then cs else cs @ [c])"

definition classList_remove :: "string \<Rightarrow> string list \<Rightarrow> string list" where
  "classList_remove c cs = removeAll c cs"

text \<open>The four elements \<open>ui.updateStats\<close> writes to: two texts and the classes of two pills.\<close>

record stats_elements =
  statWm :: string
  statNwm :: string
  statPillWm :: "string list"
  statPillNwm :: "string list"

definition ui_updateStats :: "stats \<Rightarrow> stats_elements \<Rightarrow> stats_elements" where
  "ui_updateStats s els =
     (let e1 = els\<lparr>statWm := show_int (watermarked s) @ ''/'' @ show_int (targetWatermarked s)\<rparr>;
          e2 = e1\<lparr>statNwm := show_int (noWatermarked s) @ ''/'' @ show_int (targetNoWatermarked s)\<rparr>;
          e3 = (if targetWatermarked s > 0 \<and> watermarked s \<ge> targetWatermarked s
                then e2\<lparr>statPillWm := classList_add ''complete'' (statPillWm e2)\<rparr>
                else e2\<lparr>statPillWm := classList_remove ''complete'' (statPillWm e2)\<rparr>)
      in if targetNoWatermarked s > 0 \<and> noWatermarked s \<ge> targetNoWatermarked s
         then e3\<lparr>statPillNwm := classList_add ''complete'' (statPillNwm e3)\<rparr>
         else e3\<lparr>statPillNwm := classList_remove ''complete'' (statPillNwm e3)\<rparr>)"

text \<open>
  \<open>updateTargetStats\<close> of the index-based client. \<open>None\<close> is the hidden panel (its texts
  are not written); otherwise the texts and class names of the two counters.
\<close>

definition no_counts :: counts where
  "no_counts = \<lparr>cnt_watermarked = None, cnt_non_watermarked = None\<rparr>"

definition counts_or_empty :: "counts option \<Rightarrow> counts" where
  "counts_or_empty c = (case c of None \<Rightarrow> no_counts | Some v \<Rightarrow> v)"

definition updateTargetStats :: "dataset list \<Rightarrow> string \<Rightarrow> target_panel option" where
  "updateTargetStats ts typeName =
     (case find (\<lambda>t. name t = typeName) ts of
        None \<Rightarrow> None
      | Some ty \<Rightarrow>
          (let target = counts_or_empty (target_count ty);
               current = counts_or_empty (current_count ty);
               hasTarget = (or0 (cnt_watermarked target) + or0 (cnt_non_watermarked target) > 0)
           in if \<not> hasTarget then None
              else
                (let wmCurrent = or0 (cnt_watermarked current);
                     wmTarget = or0 (cnt_watermarked target);
                     wmComplete = (wmTarget > 0 \<and> wmCurrent \<ge> wmTarget);
                     nwmCurrent = or0 (cnt_non_watermarked current);
                     nwmTarget = or0 (cnt_non_watermarked target);
                     nwmComplete = (nwmTarget > 0 \<and> nwmCurrent \<ge> nwmTarget)
                 in Some \<lparr>wm_text = show_int wmCurrent @ ''/'' @ show_int wmTarget,
                      wm_className = ''stat-value '' @ (if wmComplete then ''complete'' else []),
                      nwm_text = show_int nwmCurrent @ ''/'' @ show_int nwmTarget,
                      nwm_className =
                        ''stat-value '' @ (if nwmComplete then ''complete'' else [])\<rparr>)))"

section \<open>The index-based application\<close>

record 'w legacy_world =
  legacy :: legacy_state
  legacy_remote :: 'w
  legacy_trace :: "event list"

definition legacy_ui :: "ui_call \<Rightarrow> 'w legacy_world \<Rightarrow> 'w legacy_world" where
  "legacy_ui c w = w\<lparr>legacy_trace := legacy_trace w @ [Ui c]\<rparr>"

definition assign :: "(legacy_state \<Rightarrow> legacy_state) \<Rightarrow> 'w legacy_world \<Rightarrow> 'w legacy_world" where
  "assign f w =
     w\<lparr>legacy := f (legacy w), legacy_trace := legacy_trace w @ [LegacyAssigned (f (legacy w))]\<rparr>"

text \<open>\<open>api.request\<close> of the index-based client: a rejection is thrown, nothing is logged.\<close>

definition legacy_request :: "('w \<Rightarrow> (string + 'r) \<times> 'w) \<Rightarrow> request \<Rightarrow> 'w legacy_world \<Rightarrow>
    (string + 'r) \<times> 'w legacy_world" where
  "legacy_request endpoint r w =
     (case endpoint (legacy_remote w) of
        (res, rs) \<Rightarrow> (res, w\<lparr>legacy_remote := rs, legacy_trace := legacy_trace w @ [Request r]\<rparr>))"

definition legacy_loadTypes :: "'w server \<Rightarrow> bool \<Rightarrow> 'w legacy_world \<Rightarrow> 'w legacy_world" where
  "legacy_loadTypes srv skipScan w =
     (case legacy_request (\<lambda>rs. srv_getTypes srv rs skipScan) (GetTypes skipScan) w of
        (Inl err, w1) \<Rightarrow> legacy_ui (ShowToast (LoadTypesFailed err) Error) w1
      | (Inr ts, w1) \<Rightarrow>
          (let w2 = assign (\<lambda>s. s\<lparr>types := ts\<rparr>) w1;
               w3 = legacy_ui (RenderTypeList (types (legacy w2)) (currentType (legacy w2))) w2
           in legacy_ui (RenderTypeSelector (types (legacy w3)) (currentType (legacy w3))) w3))"

definition legacy_loadCurrentImage_catch :: "string \<Rightarrow> 'w legacy_world \<Rightarrow> 'w legacy_world" where
  "legacy_loadCurrentImage_catch err w =
     legacy_ui HideImage (legacy_ui (ShowToast (LoadImageFailed err) Error) w)"

definition legacy_loadCurrentImage_try :: "'w server \<Rightarrow> string \<Rightarrow> 'w legacy_world \<Rightarrow>
    'w legacy_world" where
  "legacy_loadCurrentImage_try srv ty w =
     (case legacy_request (\<lambda>rs. srv_getCurrentImage srv rs ty) (GetCurrentImage ty) w of
        (Inl err, w1) \<Rightarrow> legacy_loadCurrentImage_catch err w1
      | (Inr imageInfo, w1) \<Rightarrow>
          (let w2 = assign (\<lambda>s. s\<lparr>currentIndex := info_index imageInfo\<rparr>)
                      (assign (\<lambda>s. s\<lparr>currentImage := Some imageInfo\<rparr>) w1)
           in case legacy_request (\<lambda>rs. srv_getProgress srv rs ty) (GetProgress ty) w2 of
                (Inl err, w3) \<Rightarrow> legacy_loadCurrentImage_catch err w3
              | (Inr p, w3) \<Rightarrow>
                  (let w4 = legacy_ui (UpdateProgress (progress_annotated_count p)
                                         (progress_total_images p)) w3
                   in case legacy_request
                             (\<lambda>rs. srv_getImageBase64 srv rs ty (info_index imageInfo))
                             (GetImageBase64 ty (info_index imageInfo)) w4 of
                        (Inl err, w5) \<Rightarrow> legacy_loadCurrentImage_catch err w5
                      | (Inr base64, w5) \<Rightarrow>
                          legacy_ui (SetTextContent ''total-images'' (progress_total_images p))
                            (legacy_ui (SetTextContent ''current-index'' (info_index imageInfo + 1))
                               (legacy_ui (UpdateFilePath (info_path imageInfo))
                                  (legacy_ui (UpdateStatusBadge (info_status imageInfo))
                                     (legacy_ui (ShowImage base64) w5)))))))"

definition legacy_loadCurrentImage :: "'w server \<Rightarrow> 'w legacy_world \<Rightarrow> 'w legacy_world" where
  "legacy_loadCurrentImage srv w =
     (if falsy (currentType (legacy w)) then legacy_ui HideImage w
      else if legacy_isLoading (legacy w) then w
      else assign (\<lambda>s. s\<lparr>legacy_isLoading := False\<rparr>)
             (legacy_loadCurrentImage_try srv (the (currentType (legacy w)))
                (legacy_ui ShowLoading (assign (\<lambda>s. s\<lparr>legacy_isLoading := True\<rparr>) w))))"

definition loadImageByIndex_try :: "'w server \<Rightarrow> string \<Rightarrow> int \<Rightarrow> 'w legacy_world \<Rightarrow>
    'w legacy_world" where
  "loadImageByIndex_try srv ty i w =
     (case legacy_request (\<lambda>rs. srv_getImageByIndex srv rs ty i) (GetImageByIndex ty i) w of
        (Inl err, w1) \<Rightarrow> legacy_ui (ShowToast (LoadFailed err) Error) w1
      | (Inr imageInfo, w1) \<Rightarrow>
          (let w2 = assign (\<lambda>s. s\<lparr>currentIndex := info_index imageInfo\<rparr>)
                      (assign (\<lambda>s. s\<lparr>currentImage := Some imageInfo\<rparr>) w1)
           in case legacy_request (\<lambda>rs. srv_getImageBase64 srv rs ty i) (GetImageBase64 ty i) w2 of
                (Inl err, w3) \<Rightarrow> legacy_ui (ShowToast (LoadFailed err) Error) w3
              | (Inr base64, w3) \<Rightarrow>
                  (let w4 = legacy_ui (UpdateFilePath (info_path imageInfo))
                              (legacy_ui (UpdateStatusBadge (info_status imageInfo))
                                 (legacy_ui (ShowImage base64) w3))
                   in case legacy_request (\<lambda>rs. srv_getProgress srv rs ty) (GetProgress ty) w4 of
                        (Inl err, w5) \<Rightarrow> legacy_ui (ShowToast (LoadFailed err) Error) w5
                      | (Inr p, w5) \<Rightarrow>
                          legacy_ui (SetTextContent ''current-index'' (i + 1))
                            (legacy_ui (UpdateProgress (progress_annotated_count p)
                                          (progress_total_images p)) w5))))"

definition loadImageByIndex :: "'w server \<Rightarrow> int \<Rightarrow> 'w legacy_world \<Rightarrow> 'w legacy_world" where
  "loadImageByIndex srv i w =
     (if falsy (currentType (legacy w)) \<or> legacy_isLoading (legacy w) then w
      else assign (\<lambda>s. s\<lparr>legacy_isLoading := False\<rparr>)
             (loadImageByIndex_try srv (the (currentType (legacy w))) i
                (legacy_ui ShowLoading (assign (\<lambda>s. s\<lparr>legacy_isLoading := True\<rparr>) w))))"

definition navigateNext :: "'w server \<Rightarrow> 'w legacy_world \<Rightarrow> 'w legacy_world" where
  "navigateNext srv w =
     (if falsy (currentType (legacy w)) then w
      else
        (case legacy_request (\<lambda>rs. srv_navigateNext srv rs (the (currentType (legacy w))))
                (NavigateNext (the (currentType (legacy w)))) w of
           (Inl err, w1) \<Rightarrow> legacy_ui (ShowToast (NavigateFailed err) Error) w1
         | (Inr result, w1) \<Rightarrow>
             if nav_success result = False then legacy_ui (ShowToast AlreadyLast Info) w1
             else loadImageByIndex srv (nav_index result) w1))"

definition navigatePrev :: "'w server \<Rightarrow> 'w legacy_world \<Rightarrow> 'w legacy_world" where
  "navigatePrev srv w =
     (if falsy (currentType (legacy w)) then w
      else
        (case legacy_request (\<lambda>rs. srv_navigatePrev srv rs (the (currentType (legacy w))))
                (NavigatePrev (the (currentType (legacy w)))) w of
           (Inl err, w1) \<Rightarrow> legacy_ui (ShowToast (NavigateFailed err) Error) w1
         | (Inr result, w1) \<Rightarrow>
             if nav_success result = False then legacy_ui (ShowToast AlreadyFirst Info) w1
             else loadImageByIndex srv (nav_index result) w1))"

definition annotate :: "'w server \<Rightarrow> int \<Rightarrow> 'w legacy_world \<Rightarrow> 'w legacy_world" where
  "annotate srv label w =
     (if falsy (currentType (legacy w)) \<or> currentImage (legacy w) = None
      then legacy_ui (ShowToast SelectTypeAndImageFirst Warning) w
      else
        (case legacy_request
                (\<lambda>rs. srv_createAnnotation srv rs (info_path (the (currentImage (legacy w)))) label
                         (the (currentType (legacy w))))
                (CreateAnnotation (info_path (the (currentImage (legacy w)))) label
                   (the (currentType (legacy w)))) w of
           (Inl err, w1) \<Rightarrow> legacy_ui (ShowToast (AnnotateFailed err) Error) w1
         | (Inr u, w1) \<Rightarrow>
             legacy_loadTypes srv False
               (navigateNext srv
                  (legacy_ui (UpdateStatusBadge
                                (if label = 1 then ''watermarked'' else ''no_watermark''))
                     (legacy_ui (ShowToast (if label = 1 then MarkedWatermarked
                                            else MarkedNoWatermark) Success) w1)))))"

definition skipImage :: "'w server \<Rightarrow> 'w legacy_world \<Rightarrow> 'w legacy_world" where
  "skipImage srv w =
     (if falsy (currentType (legacy w)) \<or> currentImage (legacy w) = None
      then legacy_ui (ShowToast SelectTypeAndImageFirst Warning) w
      else
        (case legacy_request
                (\<lambda>rs. srv_skipImage srv rs (info_path (the (currentImage (legacy w))))
                         (the (currentType (legacy w))))
                (SkipImage (info_path (the (currentImage (legacy w))))
                   (the (currentType (legacy w)))) w of
           (Inl err, w1) \<Rightarrow> legacy_ui (ShowToast (OperationFailed err) Error) w1
         | (Inr u, w1) \<Rightarrow>
             navigateNext srv
               (legacy_ui (UpdateStatusBadge ''skipped'')
                  (legacy_ui (ShowToast Skipped Info) w1))))"

definition undoAction :: "'w server \<Rightarrow> 'w legacy_world \<Rightarrow> 'w legacy_world" where
  "undoAction srv w =
     (case legacy_request (srv_undo srv) Undo w of
        (Inl err, w1) \<Rightarrow> legacy_ui (ShowToast (UndoFailedWith err) Error) w1
      | (Inr result, w1) \<Rightarrow>
          if success result
          then legacy_loadTypes srv False
                 (legacy_loadCurrentImage srv (legacy_ui (ShowToast Undone Info) w1))
          else legacy_ui (ShowToast (ServerMessage (message result)) Warning) w1)"

definition selectType :: "'w server \<Rightarrow> string \<Rightarrow> 'w legacy_world \<Rightarrow> 'w legacy_world" where
  "selectType srv typeName w =
     (if currentType (legacy w) = Some typeName then w
      else
        (let w1 = assign (\<lambda>s. s\<lparr>currentIndex := 0\<rparr>)
                    (assign (\<lambda>s. s\<lparr>currentType := Some typeName\<rparr>) w);
             w2 = legacy_ui (RenderTypeSelector (types (legacy w1)) (Some typeName))
                    (legacy_ui (RenderTypeList (types (legacy w1)) (Some typeName)) w1);
             w3 = legacy_ui (TargetStats (updateTargetStats (types (legacy w2)) typeName)) w2
         in legacy_loadCurrentImage srv w3))"

section \<open>Reading a trace\<close>

fun requests_of :: "event list \<Rightarrow> request list" where
  "requests_of [] = []"
| "requests_of (Request r # es) = r # requests_of es"
| "requests_of (e # es) = requests_of es"

fun toasts_of :: "event list \<Rightarrow> (toast_text \<times> toast_kind) list" where
  "toasts_of [] = []"
| "toasts_of (Ui (ShowToast t k) # es) = (t, k) # toasts_of es"
| "toasts_of (e # es) = toasts_of es"

fun states_of :: "event list \<Rightarrow> app_state list" where
  "states_of [] = []"
| "states_of (StateReplaced s # es) = s # states_of es"
| "states_of (e # es) = states_of es"

fun deliveries_of :: "event list \<Rightarrow> (nat \<times> app_state) list" where
  "deliveries_of [] = []"
| "deliveries_of (Notify l s # es) = (l, s) # deliveries_of es"
| "deliveries_of (e # es) = deliveries_of es"

section \<open>Concrete services and sessions\<close>

text \<open>A service that answers every call with the same values, and one that rejects every call.\<close>

definition answering :: "image_info \<Rightarrow> string \<Rightarrow> progress \<Rightarrow> nav_result \<Rightarrow> action_result \<Rightarrow>
    unit server" where
  "answering info base64 p nav act =
     \<lparr>srv_getTypes = (\<lambda>rs skipScan. (Inr [], rs)),
      srv_getCurrentImage = (\<lambda>rs ds. (Inr info, rs)),
      srv_getImageByIndex = (\<lambda>rs ds i. (Inr info, rs)),
      srv_getImageBase64 = (\<lambda>rs ds i. (Inr base64, rs)),
      srv_deleteImage = (\<lambda>rs ds p. (Inr (), rs)),
      srv_createAnnotation = (\<lambda>rs p l ds. (Inr (), rs)),
      srv_skipImage = (\<lambda>rs p ds. (Inr (), rs)),
      srv_undo = (\<lambda>rs. (Inr act, rs)),
      srv_getProgress = (\<lambda>rs ds. (Inr p, rs)),
      srv_navigateNext = (\<lambda>rs ds. (Inr nav, rs)),
      srv_navigatePrev = (\<lambda>rs ds. (Inr nav, rs))\<rparr>"

definition rejecting :: "string \<Rightarrow> unit server" where
  "rejecting msg =
     \<lparr>srv_getTypes = (\<lambda>rs skipScan. (Inl msg, rs)),
      srv_getCurrentImage = (\<lambda>rs ds. (Inl msg, rs)),
      srv_getImageByIndex = (\<lambda>rs ds i. (Inl msg, rs)),
      srv_getImageBase64 = (\<lambda>rs ds i. (Inl msg, rs)),
      srv_deleteImage = (\<lambda>rs ds p. (Inl msg, rs)),
      srv_createAnnotation = (\<lambda>rs p l ds. (Inl msg, rs)),
      srv_skipImage = (\<lambda>rs p ds. (Inl msg, rs)),
      srv_undo = (\<lambda>rs. (Inl msg, rs)),
      srv_getProgress = (\<lambda>rs ds. (Inl msg, rs)),
      srv_navigateNext = (\<lambda>rs ds. (Inl msg, rs)),
      srv_navigatePrev = (\<lambda>rs ds. (Inl msg, rs))\<rparr>"

text \<open>
  A session on dataset \<open>A\<close> showing the last of its 3 images, with one subscriber, and the answers
  of a service whose cursor for \<open>A\<close> stands on that image, the last one.
\<close>

definition image_a :: image where
  "image_a = \<lparr>data = Some ''QUJD'', path = Some ''/data/a/3.jpg'', index = 2, total = 3,
     status = ''pending''\<rparr>"

definition info_a :: image_info where
  "info_a = \<lparr>info_path = ''/data/a/3.jpg'', info_index = 2, info_status = ''pending''\<rparr>"

definition info_b :: image_info where
  "info_b = \<lparr>info_path = ''/data/b/1.jpg'', info_index = 0, info_status = ''pending''\<rparr>"

definition progress_a :: progress where
  "progress_a = \<lparr>progress_total_images = 3, progress_annotated_count = 2,
     watermarked_count = 1, non_watermarked_count = 1\<rparr>"

definition stats_a :: stats where
  "stats_a = \<lparr>watermarked = 1, noWatermarked = 1, targetWatermarked = 0,
     targetNoWatermarked = 0\<rparr>"

definition state_a :: app_state where
  "state_a = \<lparr>currentDataset = Some ''A'', datasets = [], image = image_a, stats = stats_a,
     isLoading = False\<rparr>"

definition world_a :: "unit world" where
  "world_a = \<lparr>store = \<lparr>objs = [state_a], state = 0, listeners = [0]\<rparr>, remote = (),
     trace = []\<rparr>"

text \<open>The same session while a load is in flight.\<close>

definition world_loading :: "unit world" where
  "world_loading = \<lparr>store = \<lparr>objs = [state_a\<lparr>isLoading := True\<rparr>], state = 0,
     listeners = [0]\<rparr>, remote = (), trace = []\<rparr>"

text \<open>A session with nothing selected.\<close>

definition world_fresh :: "unit world" where
  "world_fresh = \<lparr>store = subscribe new_Store 0, remote = (), trace = []\<rparr>"

definition at_end :: nav_result where
  "at_end = \<lparr>nav_success = False, nav_index = 2\<rparr>"

definition nothing_to_undo :: action_result where
  "nothing_to_undo = \<lparr>success = False, message = ''nothing to undo''\<rparr>"

definition service_a :: "unit server" where
  "service_a = answering info_a ''QUJD'' progress_a at_end nothing_to_undo"

definition service_b :: "unit server" where
  "service_b = answering info_b ''WFla'' progress_a at_end nothing_to_undo"





text \<open>The service at the end of \<open>A\<close> when it has no current image to give.\<close>

definition service_end :: "unit server" where
  "service_end = service_a\<lparr>srv_getCurrentImage := (\<lambda>rs ds. (Inl ''Not Found'', rs))\<rparr>"

text \<open>A service that gives the metadata of an image and rejects the fetch of its payload.\<close>

definition service_no_payload :: "unit server" where
  "service_no_payload = service_a\<lparr>srv_getImageBase64 := (\<lambda>rs ds i. (Inl ''Not Found'', rs))\<rparr>"

text \<open>The service when there is a further image.\<close>

definition service_next :: "unit server" where
  "service_next =
     answering info_a ''QUJD'' progress_a \<lparr>nav_success = True, nav_index = 1\<rparr> nothing_to_undo"

definition legacy_fresh :: "unit legacy_world" where
  "legacy_fresh = \<lparr>legacy = \<lparr>currentType = None, currentIndex = 0, currentImage = None,
       types = [], legacy_isLoading = False\<rparr>,
     legacy_remote = (), legacy_trace = []\<rparr>"

definition legacy_loading :: "unit legacy_world" where
  "legacy_loading = \<lparr>legacy = \<lparr>currentType = Some ''A'', currentIndex = 0,
       currentImage = None, types = [], legacy_isLoading = True\<rparr>,
     legacy_remote = (), legacy_trace = []\<rparr>"

definition legacy_a :: "unit legacy_world" where
  "legacy_a = \<lparr>legacy = \<lparr>currentType = Some ''A'', currentIndex = 2,
       currentImage = Some info_a, types = [], legacy_isLoading = False\<rparr>,
     legacy_remote = (), legacy_trace = []\<rparr>"

text \<open>
  The dataset of the scenario: targets 10 and 10, counts 10 and 3. Its name is the three
  characters U+4EA7 U+54C1 U+56FE, written as their UTF-8 bytes.
\<close>

definition scenario_name :: string where
  "scenario_name = [CHR 0xE4, CHR 0xBA, CHR 0xA7, CHR 0xE5, CHR 0x93, CHR 0x81,
     CHR 0xE5, CHR 0x9B, CHR 0xBE]"

definition scenario_dataset :: dataset where
  "scenario_dataset =
     \<lparr>name = scenario_name,
      target_count = Some \<lparr>cnt_watermarked = Some 10, cnt_non_watermarked = Some 10\<rparr>,
      current_count = Some \<lparr>cnt_watermarked = Some 10, cnt_non_watermarked = Some 3\<rparr>,
      priority = 1, annotated_count = 13, total_images = 40\<rparr>"

definition scenario_stats :: stats where
  "scenario_stats = \<lparr>watermarked = 10, noWatermarked = 3, targetWatermarked = 10,
     targetNoWatermarked = 10\<rparr>"

text \<open>
  A session that has loaded the dataset of the scenario and selected nothing yet, and a
  service reporting the scenario's counts as its progress.
\<close>

definition scenario_world :: "unit world" where
  "scenario_world =
     \<lparr>store = \<lparr>objs = [initial_state\<lparr>datasets := [scenario_dataset]\<rparr>], state = 0,
        listeners = [0]\<rparr>,
      remote = (), trace = []\<rparr>"

definition scenario_service :: "unit server" where
  "scenario_service =
     answering \<lparr>info_path = ''/data/p/14.jpg'', info_index = 13, info_status = ''pending''\<rparr>
       ''QUJD''
       \<lparr>progress_total_images = 40, progress_annotated_count = 13, watermarked_count = 10,
          non_watermarked_count = 3\<rparr>
       at_end nothing_to_undo"

definition blank_elements :: stats_elements where
  "blank_elements = \<lparr>statWm = ''0/0'', statNwm = ''0/0'',
     statPillWm = [''stat-pill'', ''watermarked''],
     statPillNwm = [''stat-pill'', ''no-watermarked'']\<rparr>"

section \<open>Notation for the statements\<close>

text \<open>The state object the Store of a world holds.\<close>

abbreviation current :: "'w world \<Rightarrow> app_state" where
  "current w \<equiv> getState (store w)"

text \<open>The events an operation added: those of \<open>w'\<close> after the ones \<open>w\<close> already had.\<close>

definition since :: "'w world \<Rightarrow> 'w world \<Rightarrow> event list" where
  "since w w' = drop (length (trace w)) (trace w')"

text \<open>One replacement of the state object as the trace shows it: the object, then a delivery to each subscriber.\<close>

definition replaced :: "nat list \<Rightarrow> app_state \<Rightarrow> event list" where
  "replaced ls s = StateReplaced s # map (\<lambda>l. Notify l s) ls"

section \<open>Facts about the Store\<close>

lemma getState_setState:
  "getState (fst (setState st p)) = spread_state (getState st) p"
  by (simp add: setState_def getState_def Let_def)

lemma listeners_setState: "listeners (fst (setState st p)) = listeners st"
  by (simp add: setState_def Let_def)

lemma snd_setState:
  "snd (setState st p) = map (\<lambda>l. (l, spread_state (getState st) p)) (listeners st)"
  by (simp add: setState_def Let_def notify_def getState_def)

lemma objs_setState:
  "objs (fst (setState st p)) = objs st @ [spread_state (getState st) p]"
  by (simp add: setState_def Let_def)

lemma state_setState: "state (fst (setState st p)) = length (objs st)"
  by (simp add: setState_def Let_def)

lemma updateImage_frame:
  "getState (fst (updateImage st p)) =
     (getState st)\<lparr>image := spread_image (image (getState st)) p\<rparr>"
  by (simp add: updateImage_def getState_setState spread_state_def spread_def no_fields_def)

lemma updateStats_frame:
  "getState (fst (updateStats st p)) =
     (getState st)\<lparr>stats := spread_stats (stats (getState st)) p\<rparr>"
  by (simp add: updateStats_def getState_setState spread_state_def spread_def no_fields_def)

lemma setLoading_frame:
  "getState (fst (setLoading st b)) = (getState st)\<lparr>isLoading := b\<rparr>"
  by (simp add: setLoading_def getState_setState spread_state_def spread_def no_fields_def)

lemma updateDataset_frame:
  "getState (fst (updateDataset st n)) = (getState st)\<lparr>currentDataset := Some n\<rparr>"
  by (simp add: updateDataset_def getState_setState spread_state_def spread_def no_fields_def)

lemma fresh_object:
  "objs (fst (setState st p)) = objs st @ [getState (fst (setState st p))] \<and>
   state (fst (setState st p)) = length (objs st)"
  by (simp add: objs_setState state_setState getState_setState)

subsection \<open>Store calls made by the application\<close>

lemma on_store_setState:
  "on_store (\<lambda>st. setState st p) w =
     w\<lparr>store := fst (setState (store w) p),
       trace := trace w @ replaced (listeners (store w)) (spread_state (current w) p)\<rparr>"
  by (simp add: on_store_def split_beta snd_setState getState_setState replaced_def comp_def)

lemma on_store_setLoading:
  "on_store (\<lambda>st. setLoading st b) w =
     w\<lparr>store := fst (setLoading (store w) b),
       trace := trace w @ replaced (listeners (store w)) ((current w)\<lparr>isLoading := b\<rparr>)\<rparr>"
  using on_store_setState [of "no_fields\<lparr>new_isLoading := Some b\<rparr>" w] setLoading_frame [of "store w" b]
  by (simp add: setLoading_def getState_setState)

lemma on_store_updateImage:
  "on_store (\<lambda>st. updateImage st p) w =
     w\<lparr>store := fst (updateImage (store w) p),
       trace := trace w @ replaced (listeners (store w))
         ((current w)\<lparr>image := spread_image (image (current w)) p\<rparr>)\<rparr>"
  using updateImage_frame [of "store w" p]
  by (simp add: on_store_def split_beta updateImage_def snd_setState getState_setState
      replaced_def comp_def)

lemma on_store_updateStats:
  "on_store (\<lambda>st. updateStats st p) w =
     w\<lparr>store := fst (updateStats (store w) p),
       trace := trace w @ replaced (listeners (store w))
         ((current w)\<lparr>stats := spread_stats (stats (current w)) p\<rparr>)\<rparr>"
  using updateStats_frame [of "store w" p]
  by (simp add: on_store_def split_beta updateStats_def snd_setState getState_setState
      replaced_def comp_def)

lemma on_store_updateDataset:
  "on_store (\<lambda>st. updateDataset st n) w =
     w\<lparr>store := fst (updateDataset (store w) n),
       trace := trace w @ replaced (listeners (store w)) ((current w)\<lparr>currentDataset := Some n\<rparr>)\<rparr>"
  using updateDataset_frame [of "store w" n]
  by (simp add: on_store_def split_beta updateDataset_def snd_setState getState_setState
      replaced_def comp_def)

lemma listeners_kept:
  "listeners (fst (setLoading st b)) = listeners st"
  "listeners (fst (updateImage st ip)) = listeners st"
  "listeners (fst (updateStats st sp)) = listeners st"
  "listeners (fst (updateDataset st n)) = listeners st"
  by (simp_all add: setLoading_def updateImage_def updateStats_def updateDataset_def
      listeners_setState)

lemmas on_store_simps =
  on_store_setLoading on_store_updateImage on_store_updateStats on_store_updateDataset
  listeners_kept setLoading_frame updateImage_frame updateStats_frame updateDataset_frame

subsection \<open>Reading a trace piece by piece\<close>

lemma requests_of_append: "requests_of (xs @ ys) = requests_of xs @ requests_of ys"
  by (induction xs rule: requests_of.induct) simp_all

lemma toasts_of_append: "toasts_of (xs @ ys) = toasts_of xs @ toasts_of ys"
  by (induction xs rule: toasts_of.induct) simp_all

lemma states_of_append: "states_of (xs @ ys) = states_of xs @ states_of ys"
  by (induction xs rule: states_of.induct) simp_all

lemma deliveries_of_append: "deliveries_of (xs @ ys) = deliveries_of xs @ deliveries_of ys"
  by (induction xs rule: deliveries_of.induct) simp_all

lemma read_deliveries:
  "requests_of (map (\<lambda>l. Notify l s) ls) = []"
  "toasts_of (map (\<lambda>l. Notify l s) ls) = []"
  "states_of (map (\<lambda>l. Notify l s) ls) = []"
  "deliveries_of (map (\<lambda>l. Notify l s) ls) = map (\<lambda>l. (l, s)) ls"
  by (induction ls) simp_all

lemma read_replaced:
  "requests_of (replaced ls s) = []"
  "toasts_of (replaced ls s) = []"
  "states_of (replaced ls s) = [s]"
  "deliveries_of (replaced ls s) = map (\<lambda>l. (l, s)) ls"
  by (simp_all add: replaced_def read_deliveries)

lemmas read_trace =
  requests_of_append toasts_of_append states_of_append deliveries_of_append read_replaced

subsection \<open>The merges the application asks for\<close>

lemma spread_cleared: "spread_image im cleared_image = im\<lparr>data := None, path := None\<rparr>"
  by (cases im) (simp add: spread_image_def cleared_image_def no_image_fields_def spread_def)

lemma spread_loaded:
  "spread_image im (loaded_image b info) =
     im\<lparr>data := Some b, path := Some (info_path info), index := info_index info,
        status := info_status info\<rparr>"
  by (cases im) (simp add: spread_image_def loaded_image_def spread_def)

lemma spread_total:
  "spread_image im (no_image_fields\<lparr>new_total := Some t\<rparr>) = im\<lparr>total := t\<rparr>"
  by (cases im) (simp add: spread_image_def no_image_fields_def spread_def)

lemma spread_counts:
  "spread_stats ss (no_stats_fields\<lparr>new_watermarked := Some a, new_noWatermarked := Some b\<rparr>) =
     ss\<lparr>watermarked := a, noWatermarked := b\<rparr>"
  by (cases ss) (simp add: spread_stats_def no_stats_fields_def spread_def)

lemma spread_targets:
  "spread_stats ss (target_stats tc) =
     ss\<lparr>targetWatermarked := or0 (cnt_watermarked tc),
        targetNoWatermarked := or0 (cnt_non_watermarked tc)\<rparr>"
  by (cases ss) (simp add: spread_stats_def target_stats_def no_stats_fields_def spread_def)

lemmas spreads = spread_cleared spread_loaded spread_total spread_counts spread_targets

subsection \<open>A load, case by case\<close>

lemma load_meta_rejected:
  assumes "currentDataset (current w) = Some d" "d \<noteq> []"
    and "srv_getCurrentImage srv (remote w) d = (Inl err, rs)"
  shows "current (loadCurrentImage srv w) =
           (current w)\<lparr>image := (image (current w))\<lparr>data := None, path := None\<rparr>,
              isLoading := False\<rparr>"
    and "since w (loadCurrentImage srv w) =
           replaced (listeners (store w)) ((current w)\<lparr>isLoading := True\<rparr>) @
           [Request (GetCurrentImage d), ConsoleError err, ConsoleError err] @
           replaced (listeners (store w))
             ((current w)\<lparr>isLoading := True,
                image := (image (current w))\<lparr>data := None, path := None\<rparr>\<rparr>) @
           replaced (listeners (store w))
             ((current w)\<lparr>image := (image (current w))\<lparr>data := None, path := None\<rparr>,
                isLoading := False\<rparr>)"
    and "remote (loadCurrentImage srv w) = rs"
  using assms
  by (simp_all add: loadCurrentImage_def falsy_def loadCurrentImage_try_def request_def
      loadCurrentImage_catch_def emit_def on_store_simps since_def spreads)

lemma load_data_rejected:
  assumes "currentDataset (current w) = Some d" "d \<noteq> []"
    and "srv_getCurrentImage srv (remote w) d = (Inr info, rs)"
    and "srv_getImageBase64 srv rs d (info_index info) = (Inl err, rs')"
  shows "current (loadCurrentImage srv w) =
           (current w)\<lparr>image := (image (current w))\<lparr>data := None, path := None\<rparr>,
              isLoading := False\<rparr>"
    and "since w (loadCurrentImage srv w) =
           replaced (listeners (store w)) ((current w)\<lparr>isLoading := True\<rparr>) @
           [Request (GetCurrentImage d), Request (GetImageBase64 d (info_index info)),
            ConsoleError err, ConsoleError err] @
           replaced (listeners (store w))
             ((current w)\<lparr>isLoading := True,
                image := (image (current w))\<lparr>data := None, path := None\<rparr>\<rparr>) @
           replaced (listeners (store w))
             ((current w)\<lparr>image := (image (current w))\<lparr>data := None, path := None\<rparr>,
                isLoading := False\<rparr>)"
    and "remote (loadCurrentImage srv w) = rs'"
  using assms
  by (simp_all add: loadCurrentImage_def falsy_def loadCurrentImage_try_def request_def
      loadCurrentImage_catch_def emit_def on_store_simps since_def spreads)

lemma load_answered:
  assumes "currentDataset (current w) = Some d" "d \<noteq> []"
    and "srv_getCurrentImage srv (remote w) d = (Inr info, rs)"
    and "srv_getImageBase64 srv rs d (info_index info) = (Inr base64, rs')"
  shows "current (loadCurrentImage srv w) =
           (current w)\<lparr>image := (image (current w))\<lparr>data := Some base64,
                path := Some (info_path info), index := info_index info,
                status := info_status info\<rparr>,
              isLoading := False\<rparr>"
    and "since w (loadCurrentImage srv w) =
           replaced (listeners (store w)) ((current w)\<lparr>isLoading := True\<rparr>) @
           [Request (GetCurrentImage d), Request (GetImageBase64 d (info_index info))] @
           replaced (listeners (store w))
             ((current w)\<lparr>isLoading := True,
                image := (image (current w))\<lparr>data := Some base64,
                  path := Some (info_path info), index := info_index info,
                  status := info_status info\<rparr>\<rparr>) @
           replaced (listeners (store w))
             ((current w)\<lparr>image := (image (current w))\<lparr>data := Some base64,
                  path := Some (info_path info), index := info_index info,
                  status := info_status info\<rparr>,
                isLoading := False\<rparr>)"
    and "remote (loadCurrentImage srv w) = rs'"
  using assms
  by (simp_all add: loadCurrentImage_def falsy_def loadCurrentImage_try_def request_def
      on_store_simps since_def spreads)

lemma trace_grows_load: "trace (loadCurrentImage srv w) = trace w @ since w (loadCurrentImage srv w)"
  by (simp add: loadCurrentImage_def Let_def since_def loadCurrentImage_try_def request_def
      loadCurrentImage_catch_def emit_def on_store_simps split: prod.splits sum.splits)

subsection \<open>A progress refresh\<close>

lemma progress_keeps:
  "currentDataset (current (updateProgress srv w)) = currentDataset (current w)"
  "isLoading (current (updateProgress srv w)) = isLoading (current w)"
  "path (image (current (updateProgress srv w))) = path (image (current w))"
  "data (image (current (updateProgress srv w))) = data (image (current w))"
  "listeners (store (updateProgress srv w)) = listeners (store w)"
  by (simp_all add: updateProgress_def Let_def request_def on_store_simps spreads
      split: prod.splits sum.splits)

lemma trace_grows_progress:
  "trace (updateProgress srv w) = trace w @ since w (updateProgress srv w)"
  by (simp add: updateProgress_def Let_def since_def request_def on_store_simps
      split: prod.splits sum.splits)

subsection \<open>What a load keeps\<close>

lemma load_keeps:
  "currentDataset (current (loadCurrentImage srv w)) = currentDataset (current w)"
  "datasets (current (loadCurrentImage srv w)) = datasets (current w)"
  "stats (current (loadCurrentImage srv w)) = stats (current w)"
  by (simp_all add: loadCurrentImage_def Let_def loadCurrentImage_try_def request_def
      loadCurrentImage_catch_def emit_def on_store_simps split: prod.splits sum.splits)

lemma load_isLoading:
  "isLoading (current (loadCurrentImage srv w)) =
     (falsy (currentDataset (current w)) \<and> isLoading (current w))"
  by (simp add: loadCurrentImage_def Let_def loadCurrentImage_try_def request_def
      loadCurrentImage_catch_def emit_def on_store_simps split: prod.splits sum.splits)

lemma load_starts:
  "\<not> falsy (currentDataset (current w)) \<Longrightarrow>
   \<exists>evs. since w (loadCurrentImage srv w) =
     StateReplaced ((current w)\<lparr>isLoading := True\<rparr>) # evs"
  by (simp add: loadCurrentImage_def Let_def loadCurrentImage_try_def request_def
      loadCurrentImage_catch_def emit_def on_store_simps since_def replaced_def
      split: prod.splits sum.splits)

lemma world_a_current: "current world_a = state_a"
  by (simp add: world_a_def getState_def)

lemma world_loading_current: "current world_loading = state_a\<lparr>isLoading := True\<rparr>"
  by (simp add: world_loading_def getState_def)

lemma world_fresh_current: "current world_fresh = initial_state"
  by (simp add: world_fresh_def getState_def subscribe_def new_Store_def)

lemma since_start: "trace w = [] \<Longrightarrow> since w w' = trace w'"
  by (simp add: since_def)

lemma load_result:
  assumes "currentDataset (current w) = Some d" and "d \<noteq> []"
  shows
    "(let old = image (current w);
          new = (case srv_getCurrentImage srv (remote w) d of
                   (Inl err, rs) \<Rightarrow> old\<lparr>data := None, path := None\<rparr>
                 | (Inr info, rs) \<Rightarrow>
                     (case srv_getImageBase64 srv rs d (info_index info) of
                        (Inl err, rs') \<Rightarrow> old\<lparr>data := None, path := None\<rparr>
                      | (Inr base64, rs') \<Rightarrow>
                          old\<lparr>data := Some base64, path := Some (info_path info),
                             index := info_index info, status := info_status info\<rparr>))
      in image (current (loadCurrentImage srv w)) = new
       \<and> map image (states_of (since w (loadCurrentImage srv w))) = [old, new, new]
       \<and> toasts_of (since w (loadCurrentImage srv w)) = [])"
proof (cases "srv_getCurrentImage srv (remote w) d")
  case (Pair r1 rs)
  show ?thesis
  proof (cases r1)
    case (Inl err)
    with Pair load_meta_rejected [OF assms, of srv err rs] show ?thesis
      by (simp add: read_trace)
  next
    case (Inr info)
    show ?thesis
    proof (cases "srv_getImageBase64 srv rs d (info_index info)")
      case inner: (Pair r2 rs')
      show ?thesis
      proof (cases r2)
        case (Inl err)
        with Pair Inr inner load_data_rejected [OF assms, of srv info rs err rs'] show ?thesis
          by (simp add: read_trace)
      next
        case base: (Inr base64)
        with Pair Inr inner load_answered [OF assms, of srv info rs base64 rs'] show ?thesis
          by (simp add: read_trace)
      qed
    qed
  qed
qed

lemma load_console:
  assumes "currentDataset (current w) = Some d" and "d \<noteq> []"
  shows
    "(case srv_getCurrentImage srv (remote w) d of
        (Inl err, rs) \<Rightarrow> ConsoleError err \<in> set (trace (loadCurrentImage srv w))
      | (Inr info, rs) \<Rightarrow>
          (case srv_getImageBase64 srv rs d (info_index info) of
             (Inl err, rs') \<Rightarrow> ConsoleError err \<in> set (trace (loadCurrentImage srv w))
           | (Inr base64, rs') \<Rightarrow> True))"
proof (cases "srv_getCurrentImage srv (remote w) d")
  case (Pair r1 rs)
  show ?thesis
  proof (cases r1)
    case (Inl err)
    with Pair load_meta_rejected(2) [OF assms, of srv err rs] trace_grows_load [of srv w]
    show ?thesis by simp
  next
    case (Inr info)
    show ?thesis
    proof (cases "srv_getImageBase64 srv rs d (info_index info)")
      case inner: (Pair r2 rs')
      show ?thesis
      proof (cases r2)
        case (Inl err)
        with Pair Inr inner load_data_rejected(2) [OF assms, of srv info rs err rs']
          trace_grows_load [of srv w]
        show ?thesis by simp
      next
        case base: (Inr base64)
        with Pair Inr inner show ?thesis by simp
      qed
    qed
  qed
qed

subsection \<open>The handlers leave an idle session idle\<close>

lemma current_emit: "current (emit e w) = current w"
  by (simp add: emit_def)

lemma current_showToast: "current (showToast t k w) = current w"
  by (simp add: showToast_def emit_def)

lemma idle_after_load_progress:
  "isLoading (current (updateProgress srv (loadCurrentImage srv w))) =
     (falsy (currentDataset (current w)) \<and> isLoading (current w))"
  by (simp add: progress_keeps load_isLoading)

lemma idle_selectDataset:
  "\<not> isLoading (current w) \<Longrightarrow> \<not> isLoading (current (selectDataset srv nm w))"
  by (simp add: selectDataset_def Let_def idle_after_load_progress on_store_simps emit_def
      split: option.splits)

lemma idle_handleNavigate:
  "\<not> isLoading (current w) \<Longrightarrow> \<not> isLoading (current (handleNavigate srv direction w))"
  by (simp add: handleNavigate_def Let_def request_def load_isLoading current_showToast
      split: prod.splits sum.splits)

lemma idle_handleAnnotation:
  "\<not> isLoading (current w) \<Longrightarrow> \<not> isLoading (current (handleAnnotation srv label w))"
  by (simp add: handleAnnotation_def Let_def request_def idle_after_load_progress
      current_showToast current_emit showToast_def emit_def split: prod.splits sum.splits)

lemma idle_handleSkip:
  "\<not> isLoading (current w) \<Longrightarrow> \<not> isLoading (current (handleSkip srv w))"
  by (simp add: handleSkip_def Let_def request_def load_isLoading
      current_showToast current_emit showToast_def emit_def split: prod.splits sum.splits)

lemma idle_handleDelete:
  "\<not> isLoading (current w) \<Longrightarrow> \<not> isLoading (current (handleDelete srv confirmed w))"
  by (simp add: handleDelete_def Let_def request_def idle_after_load_progress
      current_showToast current_emit showToast_def emit_def split: prod.splits sum.splits)

lemma idle_handleUndo:
  "\<not> isLoading (current w) \<Longrightarrow> \<not> isLoading (current (handleUndo srv w))"
  by (simp add: handleUndo_def Let_def request_def idle_after_load_progress
      current_showToast current_emit showToast_def emit_def split: prod.splits sum.splits)

subsection \<open>The loads of the index-based client\<close>

lemma legacy_load_bracket:
  assumes "\<not> falsy (currentType (legacy w))" "\<not> legacy_isLoading (legacy w)"
  shows "\<exists>evs. legacy_trace (legacy_loadCurrentImage srv w) =
           legacy_trace w @ LegacyAssigned ((legacy w)\<lparr>legacy_isLoading := True\<rparr>) # evs"
    and "\<not> legacy_isLoading (legacy (legacy_loadCurrentImage srv w))"
  using assms
  by (simp_all add: legacy_loadCurrentImage_def legacy_loadCurrentImage_try_def Let_def
      legacy_loadCurrentImage_catch_def legacy_request_def legacy_ui_def assign_def
      split: prod.splits sum.splits)

lemma byIndex_bracket:
  assumes "\<not> falsy (currentType (legacy w))" "\<not> legacy_isLoading (legacy w)"
  shows "\<exists>evs. legacy_trace (loadImageByIndex srv i w) =
           legacy_trace w @ LegacyAssigned ((legacy w)\<lparr>legacy_isLoading := True\<rparr>) # evs"
    and "\<not> legacy_isLoading (legacy (loadImageByIndex srv i w))"
  using assms
  by (simp_all add: loadImageByIndex_def loadImageByIndex_try_def Let_def
      legacy_request_def legacy_ui_def assign_def
      split: prod.splits sum.splits)

lemma legacy_idle_again:
  "\<not> legacy_isLoading s \<Longrightarrow> s\<lparr>legacy_isLoading := False\<rparr> = s"
  by (cases s) simp

lemma legacy_load_meta_rejected:
  assumes "currentType (legacy w) = Some ty" "ty \<noteq> []" "\<not> legacy_isLoading (legacy w)"
    and "srv_getCurrentImage srv (legacy_remote w) ty = (Inl err, rs)"
  shows "legacy_loadCurrentImage srv w =
     w\<lparr>legacy_remote := rs,
       legacy_trace := legacy_trace w @
         [LegacyAssigned ((legacy w)\<lparr>legacy_isLoading := True\<rparr>), Ui ShowLoading,
          Request (GetCurrentImage ty), Ui (ShowToast (LoadImageFailed err) Error),
          Ui HideImage, LegacyAssigned (legacy w)]\<rparr>"
  using assms
  by (simp add: legacy_loadCurrentImage_def legacy_loadCurrentImage_try_def falsy_def
      legacy_loadCurrentImage_catch_def legacy_request_def legacy_ui_def assign_def
      legacy_idle_again)

lemma byIndex_meta_rejected:
  assumes "currentType (legacy w) = Some ty" "ty \<noteq> []" "\<not> legacy_isLoading (legacy w)"
    and "srv_getImageByIndex srv (legacy_remote w) ty i = (Inl err, rs)"
  shows "loadImageByIndex srv i w =
     w\<lparr>legacy_remote := rs,
       legacy_trace := legacy_trace w @
         [LegacyAssigned ((legacy w)\<lparr>legacy_isLoading := True\<rparr>), Ui ShowLoading,
          Request (GetImageByIndex ty i), Ui (ShowToast (LoadFailed err) Error),
          LegacyAssigned (legacy w)]\<rparr>"
  using assms
  by (simp add: loadImageByIndex_def loadImageByIndex_try_def falsy_def
      legacy_request_def legacy_ui_def assign_def legacy_idle_again)

lemma legacy_load_keeps:
  "currentType (legacy (legacy_loadCurrentImage srv w)) = currentType (legacy w)"
  by (simp add: legacy_loadCurrentImage_def legacy_loadCurrentImage_try_def Let_def
      legacy_loadCurrentImage_catch_def legacy_request_def legacy_ui_def assign_def
      split: prod.splits sum.splits)

subsection \<open>Selecting a dataset\<close>

lemma select_same: "currentDataset (current w) = Some nm \<Longrightarrow> selectDataset srv nm w = w"
  by (simp add: selectDataset_def)

lemma select_other:
  assumes "currentDataset (current w) \<noteq> Some nm"
  shows "\<exists>w3 evs. selectDataset srv nm w = updateProgress srv (loadCurrentImage srv w3)
           \<and> remote w3 = remote w
           \<and> currentDataset (current w3) = Some nm
           \<and> image (current w3) = image (current w)
           \<and> listeners (store w3) = listeners (store w)
           \<and> trace w3 = trace w @
                replaced (listeners (store w)) ((current w)\<lparr>currentDataset := Some nm\<rparr>) @ evs"
proof -
  define w2 where "w2 = emit (Ui (SetHeader nm)) (on_store (\<lambda>st. updateDataset st nm) w)"
  define w3 where "w3 =
    (case find (\<lambda>d. name d = nm) (datasets (current w2)) of
       None \<Rightarrow> w2
     | Some d \<Rightarrow>
         (case target_count d of
            None \<Rightarrow> w2
          | Some tc \<Rightarrow> on_store (\<lambda>st. updateStats st (target_stats tc)) w2))"
  have run: "selectDataset srv nm w = updateProgress srv (loadCurrentImage srv w3)"
    using assms unfolding w3_def w2_def by (simp add: selectDataset_def Let_def)
  have kept: "remote w3 = remote w" "currentDataset (current w3) = Some nm"
    "image (current w3) = image (current w)" "listeners (store w3) = listeners (store w)"
    by (simp_all add: w3_def w2_def on_store_simps emit_def split: option.splits)
  have "\<exists>evs. trace w3 = trace w @
      replaced (listeners (store w)) ((current w)\<lparr>currentDataset := Some nm\<rparr>) @ evs"
    by (simp add: w3_def w2_def on_store_simps emit_def split: option.splits)
  with run kept show ?thesis by blast
qed

lemma select_sets_name: "currentDataset (current (selectDataset srv nm w)) = Some nm"
proof (cases "currentDataset (current w) = Some nm")
  case True
  then show ?thesis by (simp add: select_same)
next
  case False
  from select_other [OF False, of srv] show ?thesis
    by (auto simp: progress_keeps load_keeps)
qed

lemma selectType_sets_name: "currentType (legacy (selectType srv nm w)) = Some nm"
  by (simp add: selectType_def Let_def legacy_load_keeps legacy_ui_def assign_def)

lemma legacy_a_facts:
  "currentType (legacy legacy_a) = Some ''A''" "\<not> legacy_isLoading (legacy legacy_a)"
  "legacy_trace legacy_a = []" "legacy_remote legacy_a = ()"
  "currentImage (legacy legacy_a) = Some info_a"
  by (simp_all add: legacy_a_def)

lemma world_a_facts:
  "currentDataset (current world_a) = Some ''A''" "image (current world_a) = image_a"
  "\<not> isLoading (current world_a)" "trace world_a = []" "remote world_a = ()"
  "listeners (store world_a) = [0]"
  by (simp_all add: world_a_current state_a_def) (simp_all add: world_a_def)

lemma rejecting_answers:
  "srv_getCurrentImage (rejecting m) rs d = (Inl m, rs)"
  "srv_getImageByIndex (rejecting m) rs d i = (Inl m, rs)"
  "srv_getImageBase64 (rejecting m) rs d i = (Inl m, rs)"
  "srv_getProgress (rejecting m) rs d = (Inl m, rs)"
  "srv_navigateNext (rejecting m) rs d = (Inl m, rs)"
  "srv_navigatePrev (rejecting m) rs d = (Inl m, rs)"
  "srv_undo (rejecting m) rs = (Inl m, rs)"
  by (simp_all add: rejecting_def)

lemma answering_answers:
  "srv_getCurrentImage (answering info b p nav act) rs d = (Inr info, rs)"
  "srv_getImageByIndex (answering info b p nav act) rs d i = (Inr info, rs)"
  "srv_getImageBase64 (answering info b p nav act) rs d i = (Inr b, rs)"
  "srv_getProgress (answering info b p nav act) rs d = (Inr p, rs)"
  "srv_navigateNext (answering info b p nav act) rs d = (Inr nav, rs)"
  "srv_navigatePrev (answering info b p nav act) rs d = (Inr nav, rs)"
  "srv_undo (answering info b p nav act) rs = (Inr act, rs)"
  "srv_skipImage (answering info b p nav act) rs pth d = (Inr (), rs)"
  "srv_deleteImage (answering info b p nav act) rs d pth = (Inr (), rs)"
  "srv_createAnnotation (answering info b p nav act) rs pth l d = (Inr (), rs)"
  by (simp_all add: answering_def)

lemma select_prefix:
  assumes "currentDataset (current w) \<noteq> Some nm"
  shows "\<exists>evs. trace (selectDataset srv nm w) =
        trace w @ StateReplaced ((current w)\<lparr>currentDataset := Some nm\<rparr>) #
          map (\<lambda>l. Notify l ((current w)\<lparr>currentDataset := Some nm\<rparr>)) (listeners (store w)) @ evs"
proof -
  from select_other [OF assms, of srv] obtain w3 evs where
    run: "selectDataset srv nm w = updateProgress srv (loadCurrentImage srv w3)"
    and tr: "trace w3 = trace w @
       replaced (listeners (store w)) ((current w)\<lparr>currentDataset := Some nm\<rparr>) @ evs"
    by blast
  have "trace (selectDataset srv nm w) =
      trace w @ replaced (listeners (store w)) ((current w)\<lparr>currentDataset := Some nm\<rparr>) @
        (evs @ since w3 (loadCurrentImage srv w3) @
           since (loadCurrentImage srv w3) (updateProgress srv (loadCurrentImage srv w3)))"
    using trace_grows_progress [of srv "loadCurrentImage srv w3"] trace_grows_load [of srv w3]
    by (simp add: run tr)
  then show ?thesis
    by (simp add: replaced_def)
qed

lemma select_loads:
  assumes "currentDataset (current w) \<noteq> Some nm" and "nm \<noteq> []"
  shows "(path (image (current (selectDataset srv nm w))),
         data (image (current (selectDataset srv nm w)))) =
          (case srv_getCurrentImage srv (remote w) nm of
             (Inl err, rs) \<Rightarrow> (None, None)
           | (Inr info, rs) \<Rightarrow>
               (case srv_getImageBase64 srv rs nm (info_index info) of
                  (Inl err, rs') \<Rightarrow> (None, None)
                | (Inr base64, rs') \<Rightarrow> (Some (info_path info), Some base64)))"
proof -
  from select_other [OF assms(1), of srv] obtain w3 evs where
    run: "selectDataset srv nm w = updateProgress srv (loadCurrentImage srv w3)"
    and rem: "remote w3 = remote w"
    and nm: "currentDataset (current w3) = Some nm"
    and "trace w3 = trace w @
       replaced (listeners (store w)) ((current w)\<lparr>currentDataset := Some nm\<rparr>) @ evs"
    by blast
  have "(path (image (current (loadCurrentImage srv w3))),
         data (image (current (loadCurrentImage srv w3)))) =
          (case srv_getCurrentImage srv (remote w) nm of
             (Inl err, rs) \<Rightarrow> (None, None)
           | (Inr info, rs) \<Rightarrow>
               (case srv_getImageBase64 srv rs nm (info_index info) of
                  (Inl err, rs') \<Rightarrow> (None, None)
                | (Inr base64, rs') \<Rightarrow> (Some (info_path info), Some base64)))"
    using load_result [OF nm assms(2), of srv]
    by (simp add: Let_def rem split: prod.splits sum.splits)
  then show ?thesis
    by (simp add: run progress_keeps)
qed

lemma service_b_answers:
  "srv_getCurrentImage service_b rs d = (Inr info_b, rs)"
  "srv_getImageBase64 service_b rs d i = (Inr ''WFla'', rs)"
  by (simp_all add: service_b_def answering_answers)

subsection \<open>Requests of a load and of a progress refresh\<close>




subsection \<open>Undo\<close>




lemma service_a_answers:
  "srv_getCurrentImage service_a rs d = (Inr info_a, rs)"
  "srv_getImageBase64 service_a rs d i = (Inr ''QUJD'', rs)"
  "srv_getProgress service_a rs d = (Inr progress_a, rs)"
  "srv_navigateNext service_a rs d = (Inr at_end, rs)"
  "srv_navigatePrev service_a rs d = (Inr at_end, rs)"
  "srv_undo service_a rs = (Inr nothing_to_undo, rs)"
  "srv_skipImage service_a rs pth d = (Inr (), rs)"
  "srv_deleteImage service_a rs d pth = (Inr (), rs)"
  "srv_createAnnotation service_a rs pth l d = (Inr (), rs)"
  by (simp_all add: service_a_def answering_answers)

lemma show_small: "show_int 10 = ''10''" "show_int 3 = ''3''"
  by (simp_all add: show_int_def show_nat.simps digit_def)

lemma complete_in_add: "''complete'' \<in> set (classList_add ''complete'' cs)"
  by (simp add: classList_add_def)

lemma complete_not_in_remove: "''complete'' \<notin> set (classList_remove ''complete'' cs)"
  by (simp add: classList_remove_def)

lemma pill_watermarked:
  "(''complete'' \<in> set (statPillWm (ui_updateStats s els))) =
     (targetWatermarked s > 0 \<and> watermarked s \<ge> targetWatermarked s)"
  by (simp add: ui_updateStats_def Let_def complete_in_add complete_not_in_remove)

lemma pill_no_watermarked:
  "(''complete'' \<in> set (statPillNwm (ui_updateStats s els))) =
     (targetNoWatermarked s > 0 \<and> noWatermarked s \<ge> targetNoWatermarked s)"
  by (simp add: ui_updateStats_def Let_def complete_in_add complete_not_in_remove)

lemma texts:
  "statWm (ui_updateStats s els) = show_int (watermarked s) @ ''/'' @ show_int (targetWatermarked s)"
  "statNwm (ui_updateStats s els) =
     show_int (noWatermarked s) @ ''/'' @ show_int (targetNoWatermarked s)"
  by (simp_all add: ui_updateStats_def Let_def)

lemma panel_flags:
  assumes "find (\<lambda>t. name t = typeName) ts = Some ty"
    and "updateTargetStats ts typeName = Some panel"
  shows "(wm_className panel = ''stat-value complete'') =
           (or0 (cnt_watermarked (counts_or_empty (target_count ty))) > 0
            \<and> or0 (cnt_watermarked (counts_or_empty (current_count ty)))
                \<ge> or0 (cnt_watermarked (counts_or_empty (target_count ty))))"
    and "(nwm_className panel = ''stat-value complete'') =
           (or0 (cnt_non_watermarked (counts_or_empty (target_count ty))) > 0
            \<and> or0 (cnt_non_watermarked (counts_or_empty (current_count ty)))
                \<ge> or0 (cnt_non_watermarked (counts_or_empty (target_count ty))))"
  using assms
  by (auto simp: updateTargetStats_def Let_def split: if_splits)

lemma scenario_panel:
  "updateTargetStats [scenario_dataset] scenario_name =
     Some \<lparr>wm_text = ''10/10'', wm_className = ''stat-value complete'',
           nwm_text = ''3/10'', nwm_className = ''stat-value ''\<rparr>"
  by (simp add: updateTargetStats_def scenario_dataset_def Let_def counts_or_empty_def or0_def
      show_small)

lemma scenario_store:
  "ui_updateStats scenario_stats blank_elements =
     \<lparr>statWm = ''10/10'', statNwm = ''3/10'',
      statPillWm = [''stat-pill'', ''watermarked'', ''complete''],
      statPillNwm = [''stat-pill'', ''no-watermarked'']\<rparr>"
  by (simp add: ui_updateStats_def scenario_stats_def blank_elements_def Let_def show_small
      classList_add_def classList_remove_def)

lemmas run =
  handleNavigate_def handleSkip_def handleDelete_def handleAnnotation_def handleUndo_def
  selectDataset_def loadCurrentImage_def loadCurrentImage_try_def loadCurrentImage_catch_def
  updateProgress_def request_def emit_def showToast_def Let_def falsy_def on_store_simps spreads
  read_trace

lemmas legacy_run =
  navigateNext_def navigatePrev_def loadImageByIndex_def loadImageByIndex_try_def
  legacy_loadCurrentImage_def legacy_loadCurrentImage_try_def legacy_loadCurrentImage_catch_def
  annotate_def skipImage_def undoAction_def legacy_request_def legacy_ui_def assign_def

lemma world_loading_facts:
  "currentDataset (current world_loading) = Some ''A''" "isLoading (current world_loading)"
  "trace world_loading = []" "remote world_loading = ()" "listeners (store world_loading) = [0]"
  "image (current world_loading) = image_a"
  by (simp_all add: world_loading_current state_a_def) (simp_all add: world_loading_def)

lemma world_fresh_facts:
  "currentDataset (current world_fresh) = None" "path (image (current world_fresh)) = None"
  "trace world_fresh = []" "remote world_fresh = ()"
  by (simp_all add: world_fresh_current initial_state_def) (simp_all add: world_fresh_def)

lemma legacy_loading_facts:
  "currentType (legacy legacy_loading) = Some ''A''" "legacy_isLoading (legacy legacy_loading)"
  "legacy_trace legacy_loading = []" "legacy_remote legacy_loading = ()"
  by (simp_all add: legacy_loading_def)

lemma legacy_fresh_facts:
  "currentType (legacy legacy_fresh) = None" "currentImage (legacy legacy_fresh) = None"
  "legacy_trace legacy_fresh = []" "legacy_remote legacy_fresh = ()"
  by (simp_all add: legacy_fresh_def)

lemma service_next_answers:
  "srv_navigateNext service_next rs d = (Inr \<lparr>nav_success = True, nav_index = 1\<rparr>, rs)"
  by (simp add: service_next_def answering_answers)

lemma service_no_payload_answers:
  "srv_getCurrentImage service_no_payload rs d = (Inr info_a, rs)"
  "srv_getImageBase64 service_no_payload rs d i = (Inl ''Not Found'', rs)"
  by (simp_all add: service_no_payload_def service_a_answers)

lemma service_end_answers:
  "srv_getCurrentImage service_end rs d = (Inl ''Not Found'', rs)"
  "srv_navigateNext service_end rs d = (Inr at_end, rs)"
  by (simp_all add: service_end_def service_a_answers)


subsection \<open>The Store after a load and a progress refresh\<close>









subsection \<open>The scenario, from the selection to the counters\<close>

lemma select_targets:
  assumes "currentDataset (current w) \<noteq> Some nm"
    and "find (\<lambda>d. name d = nm) (datasets (current w)) = Some ds"
    and "target_count ds = Some tc"
  shows "selectDataset srv nm w =
     updateProgress srv (loadCurrentImage srv
       (on_store (\<lambda>st. updateStats st (target_stats tc))
          (emit (Ui (SetHeader nm)) (on_store (\<lambda>st. updateDataset st nm) w))))"
  using assms
  by (simp add: selectDataset_def Let_def on_store_simps emit_def)

lemma progress_counts:
  assumes "currentDataset (current w) = Some d" "d \<noteq> []"
    and "srv_getProgress srv (remote w) d = (Inr p, rs)"
  shows "stats (current (updateProgress srv w)) =
     (stats (current w))\<lparr>watermarked := watermarked_count p,
        noWatermarked := non_watermarked_count p\<rparr>"
  using assms
  by (simp add: updateProgress_def Let_def falsy_def request_def on_store_simps spreads)

lemma scenario_session:
  "stats (current (selectDataset scenario_service scenario_name scenario_world)) = scenario_stats"
proof -
  let ?tc = "\<lparr>cnt_watermarked = Some 10, cnt_non_watermarked = Some 10\<rparr>"
  let ?w3 = "on_store (\<lambda>st. updateStats st (target_stats ?tc))
          (emit (Ui (SetHeader scenario_name))
             (on_store (\<lambda>st. updateDataset st scenario_name) scenario_world))"
  have cur: "current scenario_world = initial_state\<lparr>datasets := [scenario_dataset]\<rparr>"
    by (simp add: scenario_world_def getState_def)
  have sel: "selectDataset scenario_service scenario_name scenario_world =
      updateProgress scenario_service (loadCurrentImage scenario_service ?w3)"
    by (rule select_targets [where ds = scenario_dataset])
       (simp_all add: cur initial_state_def scenario_dataset_def)
  have w3: "currentDataset (current ?w3) = Some scenario_name"
    "stats (current ?w3) = \<lparr>watermarked = 0, noWatermarked = 0, targetWatermarked = 10,
        targetNoWatermarked = 10\<rparr>"
    by (simp_all add: on_store_simps emit_def spreads cur initial_state_def or0_def)
  let ?w4 = "loadCurrentImage scenario_service ?w3"
  have w4: "currentDataset (current ?w4) = Some scenario_name" "stats (current ?w4) = stats (current ?w3)"
    by (simp_all only: load_keeps w3)
  have p: "srv_getProgress scenario_service (remote ?w4) scenario_name =
      (Inr \<lparr>progress_total_images = 40, progress_annotated_count = 13, watermarked_count = 10,
          non_watermarked_count = 3\<rparr>, remote ?w4)"
    by (simp add: scenario_service_def answering_answers)
  have ne: "scenario_name \<noteq> []" by (simp add: scenario_name_def)
  from progress_counts [OF w4(1) ne p] show ?thesis
    by (simp add: sel w4 w3 scenario_stats_def)
qed

section \<open>C1: switching the dataset\<close>

text \<open>
  Claim C1, as the specification has it: \<open>selectDataset(B)\<close> with \<open>B\<close> other than the
  current dataset sets \<open>currentDataset\<close> and clears the current image before any
  subscriber is notified, so that no notification shows the new name with the image of the
  old dataset.

  The code does not do that: \<open>selectDataset\<close> calls \<open>updateDataset\<close> first, which
  notifies at once, and nothing clears the image before the load that follows. In the
  session \<open>world_a\<close> (dataset \<open>A\<close>, its image on display) the first delivery after
  \<open>selectDataset(B)\<close> carries the name \<open>B\<close> and the image of \<open>A\<close>.
\<close>

theorem selectDataset_stale_delivery:
  "currentDataset (current world_a) = Some ''A''
   \<and> image (current world_a) = image_a
   \<and> path image_a = Some ''/data/a/3.jpg''
   \<and> hd (deliveries_of (trace (selectDataset service_b ''B'' world_a))) =
       (0, \<lparr>currentDataset = Some ''B'', datasets = [], image = image_a, stats = stats_a,
            isLoading = False\<rparr>)"
proof -
  have "currentDataset (current world_a) \<noteq> Some ''B''"
    by (simp add: world_a_facts)
  from select_prefix [OF this, of service_b] show ?thesis
    by (auto simp: world_a_facts world_a_current read_trace read_deliveries state_a_def
        image_a_def)
qed

text \<open>
  Claim C1 as amended. For a name \<open>nm\<close> that is not empty and not the current dataset,
  \<open>selectDataset\<close> first makes the Store hold, and delivers to every subscriber, the
  state with \<open>currentDataset = nm\<close> and everything else, the image included, as it was.
  When it returns, \<open>currentDataset\<close> is \<open>nm\<close>, and the path and data of the image are
  those the service gave for \<open>nm\<close> when both fetches succeeded, and \<open>null\<close> when
  one of them was rejected.
\<close>

theorem selectDataset_switch:
  assumes "currentDataset (current w) \<noteq> Some nm" and "nm \<noteq> []"
  shows
    "(\<exists>evs. trace (selectDataset srv nm w) =
        trace w @ StateReplaced ((current w)\<lparr>currentDataset := Some nm\<rparr>) #
          map (\<lambda>l. Notify l ((current w)\<lparr>currentDataset := Some nm\<rparr>)) (listeners (store w)) @ evs)
     \<and> currentDataset (current (selectDataset srv nm w)) = Some nm
     \<and> (path (image (current (selectDataset srv nm w))),
         data (image (current (selectDataset srv nm w)))) =
          (case srv_getCurrentImage srv (remote w) nm of
             (Inl err, rs) \<Rightarrow> (None, None)
           | (Inr info, rs) \<Rightarrow>
               (case srv_getImageBase64 srv rs nm (info_index info) of
                  (Inl err, rs') \<Rightarrow> (None, None)
                | (Inr base64, rs') \<Rightarrow> (Some (info_path info), Some base64)))"
  using select_prefix [OF assms(1), of srv] select_sets_name [of srv nm w]
    select_loads [OF assms, of srv]
  by (intro conjI)

theorem selectDataset_switch_witness:
  "currentDataset (current world_a) \<noteq> Some ''B'' \<and> ''B'' \<noteq> []
   \<and> (\<exists>evs. trace (selectDataset service_b ''B'' world_a) =
         StateReplaced (state_a\<lparr>currentDataset := Some ''B''\<rparr>) #
         Notify 0 (state_a\<lparr>currentDataset := Some ''B''\<rparr>) # evs)
   \<and> currentDataset (current (selectDataset service_b ''B'' world_a)) = Some ''B''
   \<and> path (image (current (selectDataset service_b ''B'' world_a))) = Some ''/data/b/1.jpg''
   \<and> data (image (current (selectDataset service_b ''B'' world_a))) = Some ''WFla''"
  using selectDataset_switch [where w = world_a and nm = "''B''" and srv = service_b]
  by (simp add: world_a_current state_a_def world_a_facts service_b_answers info_b_def)

section \<open>C2: navigation while a load is in flight\<close>

text \<open>
  What holds of the guards. With no dataset selected, navigation and loading do nothing
  in both clients (the index-based \<open>loadCurrentImage\<close> hides the image element and
  returns). While \<open>isLoading\<close> is set, the index-based \<open>loadCurrentImage\<close> and
  \<open>loadImageByIndex\<close> return at once.
\<close>

lemma guards_that_hold:
  "(falsy (currentDataset (current w)) \<longrightarrow>
      handleNavigate srv direction w = w \<and> loadCurrentImage srv w = w)
   \<and> (falsy (currentType (legacy lw)) \<longrightarrow>
      navigateNext srv' lw = lw \<and> navigatePrev srv' lw = lw
      \<and> loadImageByIndex srv' i lw = lw
      \<and> legacy_loadCurrentImage srv' lw = lw\<lparr>legacy_trace := legacy_trace lw @ [Ui HideImage]\<rparr>)
   \<and> (legacy_isLoading (legacy lw) \<longrightarrow>
      loadImageByIndex srv' i lw = lw
      \<and> legacy (legacy_loadCurrentImage srv' lw) = legacy lw
      \<and> requests_of (legacy_trace (legacy_loadCurrentImage srv' lw)) =
          requests_of (legacy_trace lw))"
  by (simp add: handleNavigate_def loadCurrentImage_def navigateNext_def navigatePrev_def
      loadImageByIndex_def legacy_loadCurrentImage_def legacy_ui_def read_trace)

text \<open>
  Claim C2: with \<open>currentDataset\<close> unset or \<open>isLoading\<close> true, \<open>next\<close>, \<open>prev\<close>,
  \<open>gotoIndex\<close> and \<open>loadCurrent\<close> send no request and leave the session, the loading
  flag included, as it was.

  The store-based client at a session with dataset \<open>A\<close> selected and \<open>isLoading\<close> true:
  \<open>handleNavigate('next')\<close> sends the navigation request and both fetches, and the flag
  goes to true, true and false; \<open>loadCurrentImage\<close> sends both fetches and leaves the flag
  false. The index-based \<open>navigateNext\<close> sends its navigation request as well, before the
  guarded \<open>loadImageByIndex\<close> returns.
\<close>

theorem navigation_while_loading:
  "isLoading (current world_loading)
   \<and> currentDataset (current world_loading) = Some ''A''
   \<and> requests_of (trace (handleNavigate service_a ''next'' world_loading)) =
       [NavigateNext ''A'', GetCurrentImage ''A'', GetImageBase64 ''A'' 2]
   \<and> map isLoading (states_of (trace (handleNavigate service_a ''next'' world_loading))) =
       [True, True, False]
   \<and> requests_of (trace (loadCurrentImage service_a world_loading)) =
       [GetCurrentImage ''A'', GetImageBase64 ''A'' 2]
   \<and> \<not> isLoading (current (loadCurrentImage service_a world_loading))
   \<and> legacy_isLoading (legacy legacy_loading)
   \<and> requests_of (legacy_trace (navigateNext service_next legacy_loading)) = [NavigateNext ''A'']"
  by (simp add: run legacy_run world_loading_facts legacy_loading_facts service_a_answers
      service_next_answers info_a_def)

section \<open>C3: a load that fails\<close>

text \<open>
  Claim C3, as the specification has it: when the metadata fetch or the payload fetch
  fails, the stored image record is not touched, the image shown before stays, an error is
  reported, and the display is cleared only if there was no image before.

  The code clears instead. In the session \<open>world_a\<close>, which shows an image, a
  \<open>loadCurrentImage\<close> whose fetch is rejected leaves \<open>path\<close> and \<open>data\<close> \<open>null\<close>, and
  shows no toast.
\<close>

theorem failed_load_clears_image_counterexample:
  "path (image (current world_a)) = Some ''/data/a/3.jpg''
   \<and> data (image (current world_a)) = Some ''QUJD''
   \<and> path (image (current (loadCurrentImage (rejecting ''Network Error'') world_a))) = None
   \<and> data (image (current (loadCurrentImage (rejecting ''Network Error'') world_a))) = None
   \<and> toasts_of (trace (loadCurrentImage (rejecting ''Network Error'') world_a)) = []"
proof -
  have d: "currentDataset (current world_a) = Some ''A''" "''A'' \<noteq> []"
    by (simp_all add: world_a_facts)
  have r: "srv_getCurrentImage (rejecting ''Network Error'') (remote world_a) ''A'' =
      (Inl ''Network Error'', ())"
    by (simp add: rejecting_answers)
  have t: "trace world_a = []" by (simp add: world_a_facts)
  from load_meta_rejected [OF d r] t show ?thesis
    by (simp add: world_a_current state_a_def image_a_def since_start read_trace)
qed

text \<open>
  Claim C3 as amended. With a dataset \<open>d\<close> selected, the store-based \<open>loadCurrentImage\<close>
  replaces the state three times; the image records of the three states are the old one
  (while the flag is raised), then twice the new one, where the new record is the old one
  with \<open>data\<close> and \<open>path\<close> set to \<open>null\<close> when either fetch is rejected (whether or not
  an image was there before; \<open>index\<close>, \<open>total\<close> and \<open>status\<close> stay), and the old one with
  \<open>data\<close>, \<open>path\<close>, \<open>index\<close> and \<open>status\<close> all taken from the two answers when both
  succeed. So no state ever holds a new path with old pixel data. A rejection is written
  to the console. In the index-based client a rejected metadata fetch leaves \<open>state\<close> as
  it was and shows an error toast, in \<open>loadCurrentImage\<close> (which also hides the image
  element) and in \<open>loadImageByIndex\<close>.
\<close>

theorem failed_load_clears_image:
  "(currentDataset (current w) = Some d \<and> d \<noteq> [] \<longrightarrow>
      (let old = image (current w);
           new = (case srv_getCurrentImage srv (remote w) d of
                    (Inl err, rs) \<Rightarrow> old\<lparr>data := None, path := None\<rparr>
                  | (Inr info, rs) \<Rightarrow>
                      (case srv_getImageBase64 srv rs d (info_index info) of
                         (Inl err, rs') \<Rightarrow> old\<lparr>data := None, path := None\<rparr>
                       | (Inr base64, rs') \<Rightarrow>
                           old\<lparr>data := Some base64, path := Some (info_path info),
                              index := info_index info, status := info_status info\<rparr>))
       in image (current (loadCurrentImage srv w)) = new
        \<and> map image (states_of (trace (loadCurrentImage srv w))) =
            map image (states_of (trace w)) @ [old, new, new])
      \<and> (case srv_getCurrentImage srv (remote w) d of
            (Inl err, rs) \<Rightarrow> ConsoleError err \<in> set (trace (loadCurrentImage srv w))
          | (Inr info, rs) \<Rightarrow>
              (case srv_getImageBase64 srv rs d (info_index info) of
                 (Inl err, rs') \<Rightarrow> ConsoleError err \<in> set (trace (loadCurrentImage srv w))
               | (Inr base64, rs') \<Rightarrow> True)))
   \<and> (currentType (legacy lw) = Some ty \<and> ty \<noteq> [] \<and> \<not> legacy_isLoading (legacy lw)
        \<and> srv_getCurrentImage srv' (legacy_remote lw) ty = (Inl msg, rs1) \<longrightarrow>
      legacy (legacy_loadCurrentImage srv' lw) = legacy lw
        \<and> toasts_of (legacy_trace (legacy_loadCurrentImage srv' lw)) =
            toasts_of (legacy_trace lw) @ [(LoadImageFailed msg, Error)]
        \<and> Ui HideImage \<in> set (legacy_trace (legacy_loadCurrentImage srv' lw)))
   \<and> (currentType (legacy lw) = Some ty \<and> ty \<noteq> [] \<and> \<not> legacy_isLoading (legacy lw)
        \<and> srv_getImageByIndex srv' (legacy_remote lw) ty i = (Inl msg, rs1) \<longrightarrow>
      legacy (loadImageByIndex srv' i lw) = legacy lw
        \<and> toasts_of (legacy_trace (loadImageByIndex srv' i lw)) =
            toasts_of (legacy_trace lw) @ [(LoadFailed msg, Error)])"
proof (intro conjI impI)
  assume sel: "currentDataset (current w) = Some d \<and> d \<noteq> []"
  then have d: "currentDataset (current w) = Some d" "d \<noteq> []" by simp_all
  from load_result [OF d, of srv] trace_grows_load [of srv w]
  show "let old = image (current w);
           new = (case srv_getCurrentImage srv (remote w) d of
                    (Inl err, rs) \<Rightarrow> old\<lparr>data := None, path := None\<rparr>
                  | (Inr info, rs) \<Rightarrow>
                      (case srv_getImageBase64 srv rs d (info_index info) of
                         (Inl err, rs') \<Rightarrow> old\<lparr>data := None, path := None\<rparr>
                       | (Inr base64, rs') \<Rightarrow>
                           old\<lparr>data := Some base64, path := Some (info_path info),
                              index := info_index info, status := info_status info\<rparr>))
       in image (current (loadCurrentImage srv w)) = new
        \<and> map image (states_of (trace (loadCurrentImage srv w))) =
            map image (states_of (trace w)) @ [old, new, new]"
    by (simp add: Let_def read_trace)
  from load_console [OF d, of srv]
  show "case srv_getCurrentImage srv (remote w) d of
            (Inl err, rs) \<Rightarrow> ConsoleError err \<in> set (trace (loadCurrentImage srv w))
          | (Inr info, rs) \<Rightarrow>
              (case srv_getImageBase64 srv rs d (info_index info) of
                 (Inl err, rs') \<Rightarrow> ConsoleError err \<in> set (trace (loadCurrentImage srv w))
               | (Inr base64, rs') \<Rightarrow> True)" .
next
  assume a: "currentType (legacy lw) = Some ty \<and> ty \<noteq> [] \<and> \<not> legacy_isLoading (legacy lw)
        \<and> srv_getCurrentImage srv' (legacy_remote lw) ty = (Inl msg, rs1)"
  then have eq: "legacy_loadCurrentImage srv' lw = lw\<lparr>legacy_remote := rs1,
       legacy_trace := legacy_trace lw @
         [LegacyAssigned ((legacy lw)\<lparr>legacy_isLoading := True\<rparr>), Ui ShowLoading,
          Request (GetCurrentImage ty), Ui (ShowToast (LoadImageFailed msg) Error),
          Ui HideImage, LegacyAssigned (legacy lw)]\<rparr>"
    by (intro legacy_load_meta_rejected) simp_all
  show "legacy (legacy_loadCurrentImage srv' lw) = legacy lw"
    by (simp add: eq)
  show "toasts_of (legacy_trace (legacy_loadCurrentImage srv' lw)) =
            toasts_of (legacy_trace lw) @ [(LoadImageFailed msg, Error)]"
    by (simp add: eq read_trace)
  show "Ui HideImage \<in> set (legacy_trace (legacy_loadCurrentImage srv' lw))"
    by (simp add: eq)
next
  assume a: "currentType (legacy lw) = Some ty \<and> ty \<noteq> [] \<and> \<not> legacy_isLoading (legacy lw)
        \<and> srv_getImageByIndex srv' (legacy_remote lw) ty i = (Inl msg, rs1)"
  then have eq: "loadImageByIndex srv' i lw = lw\<lparr>legacy_remote := rs1,
       legacy_trace := legacy_trace lw @
         [LegacyAssigned ((legacy lw)\<lparr>legacy_isLoading := True\<rparr>), Ui ShowLoading,
          Request (GetImageByIndex ty i), Ui (ShowToast (LoadFailed msg) Error),
          LegacyAssigned (legacy lw)]\<rparr>"
    by (intro byIndex_meta_rejected) simp_all
  show "legacy (loadImageByIndex srv' i lw) = legacy lw"
    by (simp add: eq)
  show "toasts_of (legacy_trace (loadImageByIndex srv' i lw)) =
            toasts_of (legacy_trace lw) @ [(LoadFailed msg, Error)]"
    by (simp add: eq read_trace)
qed

theorem failed_load_clears_image_witness:
  "currentDataset (current world_a) = Some ''A''
   \<and> image (current (loadCurrentImage (rejecting ''Network Error'') world_a)) =
       image_a\<lparr>data := None, path := None\<rparr>
   \<and> map image (states_of (trace (loadCurrentImage (rejecting ''Network Error'') world_a))) =
       [image_a, image_a\<lparr>data := None, path := None\<rparr>, image_a\<lparr>data := None, path := None\<rparr>]
   \<and> ConsoleError ''Network Error'' \<in>
       set (trace (loadCurrentImage (rejecting ''Network Error'') world_a))
   \<and> image (current (loadCurrentImage service_no_payload world_a)) =
       image_a\<lparr>data := None, path := None\<rparr>
   \<and> ConsoleError ''Not Found'' \<in> set (trace (loadCurrentImage service_no_payload world_a))
   \<and> image (current (loadCurrentImage service_b world_a)) =
       image_a\<lparr>data := Some ''WFla'', path := Some ''/data/b/1.jpg'', index := 0,
          status := ''pending''\<rparr>
   \<and> legacy (legacy_loadCurrentImage (rejecting ''Network Error'') legacy_a) = legacy legacy_a
   \<and> toasts_of (legacy_trace (legacy_loadCurrentImage (rejecting ''Network Error'') legacy_a)) =
       [(LoadImageFailed ''Network Error'', Error)]
   \<and> Ui HideImage \<in> set (legacy_trace (legacy_loadCurrentImage (rejecting ''Network Error'') legacy_a))
   \<and> legacy (loadImageByIndex (rejecting ''Network Error'') 2 legacy_a) = legacy legacy_a
   \<and> toasts_of (legacy_trace (loadImageByIndex (rejecting ''Network Error'') 2 legacy_a)) =
       [(LoadFailed ''Network Error'', Error)]"
  using failed_load_clears_image [where w = world_a and d = "''A''"
      and srv = "rejecting ''Network Error''" and lw = legacy_a and ty = "''A''"
      and srv' = "rejecting ''Network Error''" and msg = "''Network Error''" and ?rs1.0 = "()"
      and i = 2]
    failed_load_clears_image [where w = world_a and d = "''A''"
      and srv = service_no_payload and lw = legacy_a and ty = "''A''"
      and srv' = "rejecting ''Network Error''" and msg = "''Network Error''" and ?rs1.0 = "()"
      and i = 2]
    failed_load_clears_image [where w = world_a and d = "''A''"
      and srv = service_b and lw = legacy_a and ty = "''A''"
      and srv' = "rejecting ''Network Error''" and msg = "''Network Error''" and ?rs1.0 = "()"
      and i = 2]
  by (simp add: world_a_facts legacy_a_facts rejecting_answers service_b_answers
      service_no_payload_answers info_a_def info_b_def Let_def)

section \<open>C4: the loading flag around a load\<close>

text \<open>
  Claim C4. A load that passes its guard raises \<open>isLoading\<close> before anything else, so
  before any request, and lowers it on every way out, whatever the service answers or
  rejects: for the store-based \<open>loadCurrentImage\<close> the first new event is the state with
  the flag raised and the final state has it lowered; likewise for the index-based
  \<open>loadCurrentImage\<close> and \<open>loadImageByIndex\<close>. Hence an operation started on a session
  whose flag is down ends with the flag down: the load itself, \<open>selectDataset\<close>,
  navigation, annotation, skip, delete and undo.
\<close>

theorem isLoading_bracket:
  "(\<not> falsy (currentDataset (current w)) \<longrightarrow>
      (\<exists>evs. trace (loadCurrentImage srv w) =
         trace w @ StateReplaced ((current w)\<lparr>isLoading := True\<rparr>) # evs)
      \<and> \<not> isLoading (current (loadCurrentImage srv w)))
   \<and> (\<not> isLoading (current w) \<longrightarrow>
      \<not> isLoading (current (loadCurrentImage srv w))
      \<and> \<not> isLoading (current (selectDataset srv nm w))
      \<and> \<not> isLoading (current (handleNavigate srv direction w))
      \<and> \<not> isLoading (current (handleAnnotation srv label w))
      \<and> \<not> isLoading (current (handleSkip srv w))
      \<and> \<not> isLoading (current (handleDelete srv confirmed w))
      \<and> \<not> isLoading (current (handleUndo srv w)))
   \<and> (\<not> falsy (currentType (legacy lw)) \<and> \<not> legacy_isLoading (legacy lw) \<longrightarrow>
      (\<exists>evs. legacy_trace (legacy_loadCurrentImage srv' lw) =
         legacy_trace lw @ LegacyAssigned ((legacy lw)\<lparr>legacy_isLoading := True\<rparr>) # evs)
      \<and> \<not> legacy_isLoading (legacy (legacy_loadCurrentImage srv' lw))
      \<and> (\<exists>evs. legacy_trace (loadImageByIndex srv' i lw) =
         legacy_trace lw @ LegacyAssigned ((legacy lw)\<lparr>legacy_isLoading := True\<rparr>) # evs)
      \<and> \<not> legacy_isLoading (legacy (loadImageByIndex srv' i lw)))"
proof (intro conjI impI)
  assume sel: "\<not> falsy (currentDataset (current w))"
  from load_starts [OF sel, of srv] trace_grows_load [of srv w]
  show "\<exists>evs. trace (loadCurrentImage srv w) =
         trace w @ StateReplaced ((current w)\<lparr>isLoading := True\<rparr>) # evs"
    by auto
  from sel show "\<not> isLoading (current (loadCurrentImage srv w))"
    by (simp add: load_isLoading)
next
  assume idle: "\<not> isLoading (current w)"
  then show "\<not> isLoading (current (loadCurrentImage srv w))"
    by (simp add: load_isLoading)
  from idle show "\<not> isLoading (current (selectDataset srv nm w))"
    by (rule idle_selectDataset)
  from idle show "\<not> isLoading (current (handleNavigate srv direction w))"
    by (rule idle_handleNavigate)
  from idle show "\<not> isLoading (current (handleAnnotation srv label w))"
    by (rule idle_handleAnnotation)
  from idle show "\<not> isLoading (current (handleSkip srv w))"
    by (rule idle_handleSkip)
  from idle show "\<not> isLoading (current (handleDelete srv confirmed w))"
    by (rule idle_handleDelete)
  from idle show "\<not> isLoading (current (handleUndo srv w))"
    by (rule idle_handleUndo)
next
  assume g: "\<not> falsy (currentType (legacy lw)) \<and> \<not> legacy_isLoading (legacy lw)"
  then have g1: "\<not> falsy (currentType (legacy lw))" and g2: "\<not> legacy_isLoading (legacy lw)"
    by simp_all
  show "\<exists>evs. legacy_trace (legacy_loadCurrentImage srv' lw) =
         legacy_trace lw @ LegacyAssigned ((legacy lw)\<lparr>legacy_isLoading := True\<rparr>) # evs"
    by (rule legacy_load_bracket(1) [OF g1 g2])
  show "\<not> legacy_isLoading (legacy (legacy_loadCurrentImage srv' lw))"
    by (rule legacy_load_bracket(2) [OF g1 g2])
  show "\<exists>evs. legacy_trace (loadImageByIndex srv' i lw) =
         legacy_trace lw @ LegacyAssigned ((legacy lw)\<lparr>legacy_isLoading := True\<rparr>) # evs"
    by (rule byIndex_bracket(1) [OF g1 g2])
  show "\<not> legacy_isLoading (legacy (loadImageByIndex srv' i lw))"
    by (rule byIndex_bracket(2) [OF g1 g2])
qed

theorem isLoading_bracket_witness:
  "\<not> falsy (currentDataset (current world_a))
   \<and> \<not> isLoading (current world_a)
   \<and> (\<exists>evs. trace (loadCurrentImage (rejecting ''Network Error'') world_a) =
         StateReplaced (state_a\<lparr>isLoading := True\<rparr>) # evs)
   \<and> \<not> isLoading (current (loadCurrentImage (rejecting ''Network Error'') world_a))
   \<and> \<not> isLoading (current (selectDataset (rejecting ''Network Error'') ''B'' world_a))
   \<and> \<not> isLoading (current (handleNavigate (rejecting ''Network Error'') ''next'' world_a))
   \<and> \<not> isLoading (current (handleAnnotation (rejecting ''Network Error'') 1 world_a))
   \<and> \<not> isLoading (current (handleSkip (rejecting ''Network Error'') world_a))
   \<and> \<not> isLoading (current (handleDelete (rejecting ''Network Error'') True world_a))
   \<and> \<not> isLoading (current (handleUndo (rejecting ''Network Error'') world_a))
   \<and> \<not> falsy (currentType (legacy legacy_a))
   \<and> \<not> legacy_isLoading (legacy legacy_a)
   \<and> (\<exists>evs. legacy_trace (legacy_loadCurrentImage (rejecting ''Network Error'') legacy_a) =
         LegacyAssigned ((legacy legacy_a)\<lparr>legacy_isLoading := True\<rparr>) # evs)
   \<and> \<not> legacy_isLoading (legacy (legacy_loadCurrentImage (rejecting ''Network Error'') legacy_a))
   \<and> (\<exists>evs. legacy_trace (loadImageByIndex (rejecting ''Network Error'') 2 legacy_a) =
         LegacyAssigned ((legacy legacy_a)\<lparr>legacy_isLoading := True\<rparr>) # evs)
   \<and> \<not> legacy_isLoading (legacy (loadImageByIndex (rejecting ''Network Error'') 2 legacy_a))"
  using isLoading_bracket [where w = world_a and srv = "rejecting ''Network Error''"
      and nm = "''B''" and direction = "''next''" and label = 1 and confirmed = True
      and lw = legacy_a and srv' = "rejecting ''Network Error''" and i = 2]
  by (simp add: world_a_current state_a_def world_a_facts legacy_a_facts falsy_def)

section \<open>C5: navigating past the end\<close>

text \<open>The index-based \<open>navigateNext\<close> and \<open>navigatePrev\<close> do what the claim says.\<close>

lemma legacy_boundary:
  "(currentType (legacy lw) = Some ty \<and> ty \<noteq> []
      \<and> srv_navigateNext srv (legacy_remote lw) ty = (Inr r, rs) \<and> \<not> nav_success r \<longrightarrow>
      navigateNext srv lw =
        lw\<lparr>legacy_remote := rs,
           legacy_trace := legacy_trace lw @
             [Request (NavigateNext ty), Ui (ShowToast AlreadyLast Info)]\<rparr>)
   \<and> (currentType (legacy lw) = Some ty \<and> ty \<noteq> []
      \<and> srv_navigatePrev srv (legacy_remote lw) ty = (Inr r, rs) \<and> \<not> nav_success r \<longrightarrow>
      navigatePrev srv lw =
        lw\<lparr>legacy_remote := rs,
           legacy_trace := legacy_trace lw @
             [Request (NavigatePrev ty), Ui (ShowToast AlreadyFirst Info)]\<rparr>)"
  by (simp add: navigateNext_def navigatePrev_def legacy_request_def legacy_ui_def falsy_def)

text \<open>
  Claim C5: when the service answers \<open>next\<close> or \<open>prev\<close> with "no further image", the
  operation reports a boundary condition and leaves the current image and the rest of the
  session as they were.

  The store-based \<open>handleNavigate\<close> does not look at the answer. In the session
  \<open>world_a\<close>, with the service answering \<open>success = false\<close>, it shows no toast, raises
  and lowers the loading flag and fetches the current image again; when that fetch is
  rejected (\<open>service_end\<close>) the image on display is cleared. The index-based
  \<open>navigateNext\<close>, at the same answer, shows the "already the last one" toast and
  leaves its state alone.
\<close>

theorem boundary_not_reported:
  "srv_navigateNext service_a (remote world_a) ''A'' = (Inr at_end, ())
   \<and> nav_success at_end = False
   \<and> toasts_of (trace (handleNavigate service_a ''next'' world_a)) = []
   \<and> requests_of (trace (handleNavigate service_a ''next'' world_a)) =
       [NavigateNext ''A'', GetCurrentImage ''A'', GetImageBase64 ''A'' 2]
   \<and> map isLoading (states_of (trace (handleNavigate service_a ''next'' world_a))) =
       [True, True, False]
   \<and> path (image (current world_a)) = Some ''/data/a/3.jpg''
   \<and> path (image (current (handleNavigate service_end ''next'' world_a))) = None
   \<and> toasts_of (trace (handleNavigate service_end ''next'' world_a)) = []
   \<and> toasts_of (legacy_trace (navigateNext service_a legacy_a)) = [(AlreadyLast, Info)]
   \<and> legacy (navigateNext service_a legacy_a) = legacy legacy_a"
  by (simp add: run legacy_run world_a_facts legacy_a_facts service_a_answers
      service_end_answers info_a_def at_end_def image_a_def)

section \<open>C6: undo\<close>



section \<open>C7: the completion flag of a counter\<close>

text \<open>
  Claim C7. For all integers, a counter is marked complete exactly when its target is
  positive and its count has reached the target, in \<open>ui.updateStats\<close> (the class
  \<open>complete\<close> of a pill) and in \<open>updateTargetStats\<close> (the class name of a counter, when
  the panel is shown); so a counter with target 0 is never complete. The texts are
  count, slash, target. In the scenario (targets 10 and 10, counts 10 and 3) the
  watermarked counter is complete, the other is not, and the texts are \<open>10/10\<close> and
  \<open>3/10\<close>; these are the statistics the Store holds once the dataset of the scenario
  has been selected and the service has reported those counts.
\<close>

theorem completion_flag:
  "(''complete'' \<in> set (statPillWm (ui_updateStats s els))) =
      (targetWatermarked s > 0 \<and> watermarked s \<ge> targetWatermarked s)
   \<and> (''complete'' \<in> set (statPillNwm (ui_updateStats s els))) =
      (targetNoWatermarked s > 0 \<and> noWatermarked s \<ge> targetNoWatermarked s)
   \<and> (targetWatermarked s = 0 \<longrightarrow> ''complete'' \<notin> set (statPillWm (ui_updateStats s els)))
   \<and> (targetNoWatermarked s = 0 \<longrightarrow> ''complete'' \<notin> set (statPillNwm (ui_updateStats s els)))
   \<and> statWm (ui_updateStats s els) =
      show_int (watermarked s) @ ''/'' @ show_int (targetWatermarked s)
   \<and> statNwm (ui_updateStats s els) =
      show_int (noWatermarked s) @ ''/'' @ show_int (targetNoWatermarked s)
   \<and> (find (\<lambda>t. name t = typeName) ts = Some ty \<and> updateTargetStats ts typeName = Some panel \<longrightarrow>
        (wm_className panel = ''stat-value complete'') =
           (or0 (cnt_watermarked (counts_or_empty (target_count ty))) > 0
            \<and> or0 (cnt_watermarked (counts_or_empty (current_count ty)))
                \<ge> or0 (cnt_watermarked (counts_or_empty (target_count ty))))
        \<and> (nwm_className panel = ''stat-value complete'') =
           (or0 (cnt_non_watermarked (counts_or_empty (target_count ty))) > 0
            \<and> or0 (cnt_non_watermarked (counts_or_empty (current_count ty)))
                \<ge> or0 (cnt_non_watermarked (counts_or_empty (target_count ty)))))
   \<and> ui_updateStats scenario_stats blank_elements =
       \<lparr>statWm = ''10/10'', statNwm = ''3/10'',
        statPillWm = [''stat-pill'', ''watermarked'', ''complete''],
        statPillNwm = [''stat-pill'', ''no-watermarked'']\<rparr>
   \<and> updateTargetStats [scenario_dataset] scenario_name =
       Some \<lparr>wm_text = ''10/10'', wm_className = ''stat-value complete'',
             nwm_text = ''3/10'', nwm_className = ''stat-value ''\<rparr>
   \<and> stats (current (selectDataset scenario_service scenario_name scenario_world)) =
       scenario_stats"
proof -
  have zero: "targetWatermarked s = 0 \<longrightarrow> ''complete'' \<notin> set (statPillWm (ui_updateStats s els))"
    "targetNoWatermarked s = 0 \<longrightarrow> ''complete'' \<notin> set (statPillNwm (ui_updateStats s els))"
    by (simp_all add: pill_watermarked pill_no_watermarked)
  have panel: "find (\<lambda>t. name t = typeName) ts = Some ty \<and> updateTargetStats ts typeName = Some panel \<longrightarrow>
        (wm_className panel = ''stat-value complete'') =
           (or0 (cnt_watermarked (counts_or_empty (target_count ty))) > 0
            \<and> or0 (cnt_watermarked (counts_or_empty (current_count ty)))
                \<ge> or0 (cnt_watermarked (counts_or_empty (target_count ty))))
        \<and> (nwm_className panel = ''stat-value complete'') =
           (or0 (cnt_non_watermarked (counts_or_empty (target_count ty))) > 0
            \<and> or0 (cnt_non_watermarked (counts_or_empty (current_count ty)))
                \<ge> or0 (cnt_non_watermarked (counts_or_empty (target_count ty))))"
    using panel_flags [of typeName ts ty panel] by blast
  from pill_watermarked [of s els] pill_no_watermarked [of s els] zero texts [of s els] panel
    scenario_store scenario_panel scenario_session
  show ?thesis by (intro conjI)
qed

theorem completion_flag_witness:
  "targetWatermarked \<lparr>watermarked = 5, noWatermarked = 7, targetWatermarked = 0,
       targetNoWatermarked = 0\<rparr> = 0
   \<and> ''complete'' \<notin> set (statPillWm (ui_updateStats
        \<lparr>watermarked = 5, noWatermarked = 7, targetWatermarked = 0, targetNoWatermarked = 0\<rparr>
        blank_elements))
   \<and> ''complete'' \<notin> set (statPillNwm (ui_updateStats
        \<lparr>watermarked = 5, noWatermarked = 7, targetWatermarked = 0, targetNoWatermarked = 0\<rparr>
        blank_elements))
   \<and> ''complete'' \<in> set (statPillWm (ui_updateStats scenario_stats blank_elements))
   \<and> ''complete'' \<notin> set (statPillNwm (ui_updateStats scenario_stats blank_elements))
   \<and> statWm (ui_updateStats scenario_stats blank_elements) = ''10/10''
   \<and> statNwm (ui_updateStats scenario_stats blank_elements) = ''3/10''
   \<and> find (\<lambda>t. name t = scenario_name) [scenario_dataset] = Some scenario_dataset
   \<and> updateTargetStats [scenario_dataset] scenario_name =
       Some \<lparr>wm_text = ''10/10'', wm_className = ''stat-value complete'',
             nwm_text = ''3/10'', nwm_className = ''stat-value ''\<rparr>
   \<and> or0 (cnt_watermarked (counts_or_empty (target_count scenario_dataset))) = 10
   \<and> or0 (cnt_watermarked (counts_or_empty (current_count scenario_dataset))) = 10
   \<and> or0 (cnt_non_watermarked (counts_or_empty (target_count scenario_dataset))) = 10
   \<and> or0 (cnt_non_watermarked (counts_or_empty (current_count scenario_dataset))) = 3"
  using completion_flag [where s = "\<lparr>watermarked = 5, noWatermarked = 7, targetWatermarked = 0,
        targetNoWatermarked = 0\<rparr>" and els = blank_elements and ts = "[scenario_dataset]"
      and typeName = scenario_name and ty = scenario_dataset
      and panel = "\<lparr>wm_text = ''10/10'', wm_className = ''stat-value complete'',
             nwm_text = ''3/10'', nwm_className = ''stat-value ''\<rparr>"]
    completion_flag [where s = scenario_stats and els = blank_elements
      and ts = "[scenario_dataset]"
      and typeName = scenario_name and ty = scenario_dataset
      and panel = "\<lparr>wm_text = ''10/10'', wm_className = ''stat-value complete'',
             nwm_text = ''3/10'', nwm_className = ''stat-value ''\<rparr>"]
  by (simp add: scenario_stats_def scenario_dataset_def counts_or_empty_def or0_def show_small)

section \<open>C8: acting with nothing selected\<close>

text \<open>
  What holds with no dataset or no image selected: none of the three store-based handlers
  sends a request or touches the Store, and the two index-based ones show their warning.
\<close>

lemma nothing_selected:
  "(falsy (currentDataset (current w)) \<or> falsy (path (image (current w))) \<longrightarrow>
      handleAnnotation srv label w =
        w\<lparr>trace := trace w @
          [Ui (HighlightButton (if label = 1 then ''btn-watermarked'' else ''btn-no-watermarked'')),
           Ui (ShowToast SelectDatasetFirst Warning)]\<rparr>
      \<and> handleSkip srv w = w\<lparr>trace := trace w @ [Ui (HighlightButton ''btn-skip'')]\<rparr>
      \<and> handleDelete srv confirmed w = w)
   \<and> (falsy (currentType (legacy lw)) \<or> currentImage (legacy lw) = None \<longrightarrow>
      annotate srv' label lw =
        lw\<lparr>legacy_trace := legacy_trace lw @ [Ui (ShowToast SelectTypeAndImageFirst Warning)]\<rparr>
      \<and> skipImage srv' lw =
        lw\<lparr>legacy_trace := legacy_trace lw @ [Ui (ShowToast SelectTypeAndImageFirst Warning)]\<rparr>)"
  by (auto simp: handleAnnotation_def handleSkip_def handleDelete_def annotate_def skipImage_def
      Let_def emit_def showToast_def legacy_ui_def)

text \<open>
  Claim C8: \<open>annotate\<close>, \<open>skip\<close> and \<open>deleteCurrent\<close>, called with no dataset or no image
  selected, report "nothing selected", send no request and leave the session as it was.

  In a session with nothing selected, \<open>handleSkip\<close> and \<open>handleDelete\<close> of the
  store-based client return without a toast, where \<open>handleAnnotation\<close> beside them, and
  \<open>skipImage\<close> and \<open>annotate\<close> of the index-based client, show the warning.
\<close>

theorem skip_and_delete_silent:
  "falsy (currentDataset (current world_fresh))
   \<and> toasts_of (trace (handleSkip service_a world_fresh)) = []
   \<and> toasts_of (trace (handleDelete service_a True world_fresh)) = []
   \<and> toasts_of (trace (handleAnnotation service_a 1 world_fresh)) =
       [(SelectDatasetFirst, Warning)]
   \<and> toasts_of (legacy_trace (skipImage service_a legacy_fresh)) =
       [(SelectTypeAndImageFirst, Warning)]
   \<and> toasts_of (legacy_trace (annotate service_a 1 legacy_fresh)) =
       [(SelectTypeAndImageFirst, Warning)]"
  by (simp add: run legacy_run world_fresh_facts legacy_fresh_facts)

section \<open>C9: selecting the selected dataset\<close>

text \<open>
  Claim C9. \<open>selectDataset\<close> on the dataset that is already selected returns the world as
  it is: no request, no change of the session. So selecting the same dataset twice in a
  row is selecting it once. The same holds of \<open>selectType\<close> of the index-based client.
\<close>

theorem selectDataset_idempotent:
  "(currentDataset (current w) = Some nm \<longrightarrow> selectDataset srv nm w = w)
   \<and> selectDataset srv nm (selectDataset srv nm w) = selectDataset srv nm w
   \<and> (currentType (legacy lw) = Some nm \<longrightarrow> selectType srv' nm lw = lw)
   \<and> selectType srv' nm (selectType srv' nm lw) = selectType srv' nm lw"
proof (intro conjI impI)
  show "selectDataset srv nm w = w" if "currentDataset (current w) = Some nm"
    using that by (rule select_same)
  show "selectDataset srv nm (selectDataset srv nm w) = selectDataset srv nm w"
    by (rule select_same) (rule select_sets_name)
  show "selectType srv' nm lw = lw" if "currentType (legacy lw) = Some nm"
    using that by (simp add: selectType_def)
  show "selectType srv' nm (selectType srv' nm lw) = selectType srv' nm lw"
    using selectType_sets_name [of srv' nm lw]
    by (simp add: selectType_def [of srv' nm "selectType srv' nm lw"])
qed

theorem selectDataset_idempotent_witness:
  "currentDataset (current world_a) = Some ''A''
   \<and> selectDataset service_a ''A'' world_a = world_a
   \<and> requests_of (trace (selectDataset service_a ''A'' world_a)) = []
   \<and> selectDataset service_a ''A'' (selectDataset service_a ''A'' world_a) =
       selectDataset service_a ''A'' world_a
   \<and> currentType (legacy legacy_a) = Some ''A''
   \<and> selectType service_a ''A'' legacy_a = legacy_a
   \<and> selectType service_a ''A'' (selectType service_a ''A'' legacy_a) =
       selectType service_a ''A'' legacy_a"
  using selectDataset_idempotent [where w = world_a and nm = "''A''" and srv = service_a
      and lw = legacy_a and srv' = service_a]
  by (simp add: world_a_facts legacy_a_facts)

section \<open>C10: the targeted updates of the Store\<close>

text \<open>
  Claim C10. Each targeted update changes its own part of the state and nothing else:
  \<open>updateImage\<close> merges the fields it is given into the image record, keeping the image
  fields it is not given, and leaves \<open>currentDataset\<close>, \<open>datasets\<close>, \<open>stats\<close> and
  \<open>isLoading\<close> as they were; \<open>updateStats\<close> changes \<open>stats\<close> only, field by field in the
  same way; \<open>setLoading\<close> changes \<open>isLoading\<close> only; \<open>updateDataset\<close> changes
  \<open>currentDataset\<close> only. Each of them makes the Store hold a new object, placed after
  the objects that existed, and those are all still there with their contents.
\<close>

theorem store_updates_frame:
  "getState (fst (updateImage st ip)) =
     (getState st)\<lparr>image :=
        \<lparr>data = (case new_data ip of None \<Rightarrow> data (image (getState st)) | Some v \<Rightarrow> v),
         path = (case new_path ip of None \<Rightarrow> path (image (getState st)) | Some v \<Rightarrow> v),
         index = (case new_index ip of None \<Rightarrow> index (image (getState st)) | Some v \<Rightarrow> v),
         total = (case new_total ip of None \<Rightarrow> total (image (getState st)) | Some v \<Rightarrow> v),
         status = (case new_status ip of None \<Rightarrow> status (image (getState st)) | Some v \<Rightarrow> v)\<rparr>\<rparr>
   \<and> getState (fst (updateStats st sp)) =
     (getState st)\<lparr>stats :=
        \<lparr>watermarked =
           (case new_watermarked sp of None \<Rightarrow> watermarked (stats (getState st)) | Some v \<Rightarrow> v),
         noWatermarked =
           (case new_noWatermarked sp of None \<Rightarrow> noWatermarked (stats (getState st)) | Some v \<Rightarrow> v),
         targetWatermarked =
           (case new_targetWatermarked sp of None \<Rightarrow> targetWatermarked (stats (getState st))
            | Some v \<Rightarrow> v),
         targetNoWatermarked =
           (case new_targetNoWatermarked sp of None \<Rightarrow> targetNoWatermarked (stats (getState st))
            | Some v \<Rightarrow> v)\<rparr>\<rparr>
   \<and> getState (fst (setLoading st b)) = (getState st)\<lparr>isLoading := b\<rparr>
   \<and> getState (fst (updateDataset st nm)) = (getState st)\<lparr>currentDataset := Some nm\<rparr>
   \<and> objs (fst (updateImage st ip)) = objs st @ [getState (fst (updateImage st ip))]
   \<and> objs (fst (updateStats st sp)) = objs st @ [getState (fst (updateStats st sp))]
   \<and> objs (fst (setLoading st b)) = objs st @ [getState (fst (setLoading st b))]
   \<and> objs (fst (updateDataset st nm)) = objs st @ [getState (fst (updateDataset st nm))]
   \<and> state (fst (updateImage st ip)) = length (objs st)
   \<and> state (fst (updateStats st sp)) = length (objs st)
   \<and> state (fst (setLoading st b)) = length (objs st)
   \<and> state (fst (updateDataset st nm)) = length (objs st)"
proof -
  have img: "getState (fst (updateImage st ip)) =
     (getState st)\<lparr>image :=
        \<lparr>data = (case new_data ip of None \<Rightarrow> data (image (getState st)) | Some v \<Rightarrow> v),
         path = (case new_path ip of None \<Rightarrow> path (image (getState st)) | Some v \<Rightarrow> v),
         index = (case new_index ip of None \<Rightarrow> index (image (getState st)) | Some v \<Rightarrow> v),
         total = (case new_total ip of None \<Rightarrow> total (image (getState st)) | Some v \<Rightarrow> v),
         status = (case new_status ip of None \<Rightarrow> status (image (getState st)) | Some v \<Rightarrow> v)\<rparr>\<rparr>"
    by (simp add: updateImage_frame spread_image_def spread_def)
  have sts: "getState (fst (updateStats st sp)) =
     (getState st)\<lparr>stats :=
        \<lparr>watermarked =
           (case new_watermarked sp of None \<Rightarrow> watermarked (stats (getState st)) | Some v \<Rightarrow> v),
         noWatermarked =
           (case new_noWatermarked sp of None \<Rightarrow> noWatermarked (stats (getState st)) | Some v \<Rightarrow> v),
         targetWatermarked =
           (case new_targetWatermarked sp of None \<Rightarrow> targetWatermarked (stats (getState st))
            | Some v \<Rightarrow> v),
         targetNoWatermarked =
           (case new_targetNoWatermarked sp of None \<Rightarrow> targetNoWatermarked (stats (getState st))
            | Some v \<Rightarrow> v)\<rparr>\<rparr>"
    by (simp add: updateStats_frame spread_stats_def spread_def)
  have fresh: "objs (fst (updateImage st ip)) = objs st @ [getState (fst (updateImage st ip))]"
    "objs (fst (updateStats st sp)) = objs st @ [getState (fst (updateStats st sp))]"
    "objs (fst (setLoading st b)) = objs st @ [getState (fst (setLoading st b))]"
    "objs (fst (updateDataset st nm)) = objs st @ [getState (fst (updateDataset st nm))]"
    "state (fst (updateImage st ip)) = length (objs st)"
    "state (fst (updateStats st sp)) = length (objs st)"
    "state (fst (setLoading st b)) = length (objs st)"
    "state (fst (updateDataset st nm)) = length (objs st)"
    unfolding updateImage_def updateStats_def setLoading_def updateDataset_def
    by (simp_all add: fresh_object)
  from img sts setLoading_frame [of st b] updateDataset_frame [of st nm] fresh
  show ?thesis by (intro conjI)
qed

end
